theory Spec2Isabelle
  imports Main "HOL-Library.Char_ord" "HOL-Library.List_Lexorder"
begin

section \<open>Python strings\<close>

text \<open>
  A Python \<open>str\<close> is modelled as a \<open>string\<close> whose characters are the code points
  below 256.  \<open>None\<close> is \<open>None\<close> of an option type, and the truth value Python gives
  to an \<open>Optional[str]\<close> (\<open>if s\<close>, \<open>if not s\<close>) is \<open>truthy\<close>.
\<close>

definition truthy :: "string option \<Rightarrow> bool" where
  "truthy s = (case s of None \<Rightarrow> False | Some t \<Rightarrow> t \<noteq> [])"

text \<open>\<open>str.isspace\<close> on one character, for the code points below 256.\<close>

definition py_isspace :: "char \<Rightarrow> bool" where
  "py_isspace c = (let n = (of_char c :: nat) in
     (9 \<le> n \<and> n \<le> 13) \<or> (28 \<le> n \<and> n \<le> 32) \<or> n = 133 \<or> n = 160)"

text \<open>\<open>s.strip()\<close>\<close>

definition strip :: "string \<Rightarrow> string" where
  "strip s = rev (dropWhile py_isspace (rev (dropWhile py_isspace s)))"

text \<open>\<open>s.split(",")\<close>: the pieces between the commas; there is always at least one piece.\<close>

fun split_comma :: "string \<Rightarrow> string list" where
  "split_comma [] = [[]]"
| "split_comma (c # cs) =
     (if c = CHR '','' then [] # split_comma cs
      else (case split_comma cs of p # ps \<Rightarrow> (c # p) # ps | [] \<Rightarrow> [[c]]))"

text \<open>
  \<open>_csv_to_list\<close>:
  \<^verbatim>\<open>
  if not s: return []
  return [p.strip() for p in s.split(",") if p.strip()]
  \<close>
\<close>

definition csv_to_list :: "string option \<Rightarrow> string list" where
  "csv_to_list s =
     (if \<not> truthy s then []
      else map strip (filter (\<lambda>p. strip p \<noteq> []) (split_comma (the s))))"

subsection \<open>\<open>int(str)\<close>\<close>

definition is_digit :: "char \<Rightarrow> bool" where
  "is_digit c = (let n = (of_char c :: nat) in 48 \<le> n \<and> n \<le> 57)"

definition digit_val :: "char \<Rightarrow> nat" where
  "digit_val c = of_char c - 48"

text \<open>
  The digits after the first one: a digit, or one underscore followed by a digit.
  \<open>None\<close> is Python's \<open>ValueError\<close>.
\<close>

fun int_body :: "nat \<Rightarrow> string \<Rightarrow> nat option" where
  "int_body acc [] = Some acc"
| "int_body acc [c] = (if is_digit c then Some (acc * 10 + digit_val c) else None)"
| "int_body acc (c # d # ds) =
     (if is_digit c then int_body (acc * 10 + digit_val c) (d # ds)
      else if c = CHR ''_'' \<and> is_digit d then int_body (acc * 10 + digit_val d) ds
      else None)"

text \<open>
  The digits of a number: the interpreter refuses, with \<open>ValueError\<close>, a string of more
  than 4300 digits (its default limit; underscores are not counted, leading zeros are).
\<close>

definition int_unsigned :: "string \<Rightarrow> nat option" where
  "int_unsigned s =
     (case s of [] \<Rightarrow> None
      | c # cs \<Rightarrow>
          if is_digit c \<and> length (filter is_digit s) \<le> 4300
          then int_body (digit_val c) cs else None)"

text \<open>
  The white space that \<open>int\<close> ignores around the number.  It is not that of
  \<open>str.strip\<close>: the separators \<open>0x1c\<close> to \<open>0x1f\<close> are no white space for \<open>int\<close>.
\<close>

definition int_isspace :: "char \<Rightarrow> bool" where
  "int_isspace c = (let n = (of_char c :: nat) in
     (9 \<le> n \<and> n \<le> 13) \<or> n = 32 \<or> n = 133 \<or> n = 160)"

text \<open>
  \<open>int(s)\<close> for a string, in base 10: surrounding white space is ignored, one sign is
  allowed, single underscores may separate digits.
\<close>

definition py_int :: "string \<Rightarrow> int option" where
  "py_int s =
     (case rev (dropWhile int_isspace (rev (dropWhile int_isspace s))) of
        [] \<Rightarrow> None
      | c # cs \<Rightarrow>
          if c = CHR ''-'' then map_option (\<lambda>n. - int n) (int_unsigned cs)
          else if c = CHR ''+'' then map_option int (int_unsigned cs)
          else map_option int (int_unsigned (c # cs)))"

section \<open>Request normalisation\<close>

text \<open>
  \<open>_parse_time_window\<close>:
  \<^verbatim>\<open>
  if not win: return None, None
  parts = [p.strip() for p in win.split(",")]
  try: ints = list(map(int, parts))
  except ValueError: return None, None
  if len(ints) == 2: return (ints[0], ints[1]), None
  if len(ints) == 4: return (ints[0], ints[1]), (ints[2], ints[3])
  return None, None
  \<close>
  \<open>those\<close> is the list of all results, or \<open>None\<close> when one conversion raised.
\<close>

type_synonym window = "int \<times> int"

definition parse_time_window :: "string option \<Rightarrow> window option \<times> window option" where
  "parse_time_window win =
     (if \<not> truthy win then (None, None)
      else (case those (map py_int (map strip (split_comma (the win)))) of
              None \<Rightarrow> (None, None)
            | Some ints \<Rightarrow>
                if length ints = 2 then (Some (ints ! 0, ints ! 1), None)
                else if length ints = 4
                  then (Some (ints ! 0, ints ! 1), Some (ints ! 2, ints ! 3))
                else (None, None)))"


text \<open>
  \<open>_is_airport_or_place\<close>: \<open>re.match\<close> of \<open>^[A-Z0-9]{3}$\<close> or of
  \<open>^/m/[A-Za-z0-9_]+$\<close>.  In Python \<open>$\<close> also matches just before one final line
  feed, so a code followed by a single \<open>\n\<close> is accepted; \<open>chop_newline\<close> removes it.
\<close>

definition is_upper_or_digit :: "char \<Rightarrow> bool" where
  "is_upper_or_digit c = (let n = (of_char c :: nat) in
     (48 \<le> n \<and> n \<le> 57) \<or> (65 \<le> n \<and> n \<le> 90))"

definition is_word_char :: "char \<Rightarrow> bool" where
  "is_word_char c = (let n = (of_char c :: nat) in
     (48 \<le> n \<and> n \<le> 57) \<or> (65 \<le> n \<and> n \<le> 90) \<or> (97 \<le> n \<and> n \<le> 122) \<or> n = 95)"

definition chop_newline :: "string \<Rightarrow> string" where
  "chop_newline s = (if s \<noteq> [] \<and> last s = CHR 0x0A then butlast s else s)"

definition iata_match :: "string \<Rightarrow> bool" where
  "iata_match s = (let t = chop_newline s in length t = 3 \<and> list_all is_upper_or_digit t)"

definition kgmid_match :: "string \<Rightarrow> bool" where
  "kgmid_match s = (let t = chop_newline s in
     take 3 t = ''/m/'' \<and> drop 3 t \<noteq> [] \<and> list_all is_word_char (drop 3 t))"

definition is_airport_or_place :: "string \<Rightarrow> bool" where
  "is_airport_or_place s = (iata_match s \<or> kgmid_match s)"

text \<open>
  \<open>date.fromisoformat\<close>, as CPython 3.11 implements it.  The string is read as its
  UTF-8 bytes and must have 7, 8 or 10 of them.  After four digits of the year come,
  with or without dashes, either month and day (\<open>YYYY-MM-DD\<close>, \<open>YYYYMMDD\<close>) or an ISO
  week and an optional day of the week (\<open>YYYY-Www-D\<close>, \<open>YYYYWwwD\<close>, \<open>YYYY-Www\<close>,
  \<open>YYYYWww\<close>).  Bytes after the last field read are not looked at.  The date must exist
  in the proleptic Gregorian calendar, years 1 to 9999.  A byte read past the end of the
  string is the terminating zero.
\<close>

definition utf8_bytes :: "string \<Rightarrow> nat list" where
  "utf8_bytes s =
     concat (map (\<lambda>c. let n = (of_char c :: nat)
                       in if n < 128 then [n] else [192 + n div 64, 128 + n mod 64]) s)"

definition byte_at :: "nat list \<Rightarrow> nat \<Rightarrow> nat" where
  "byte_at bs i = (if i < length bs then bs ! i else 0)"

text \<open>\<open>parse_digits\<close>: the number written by the \<open>n\<close> bytes from position \<open>i\<close>.\<close>

definition digits_at :: "nat list \<Rightarrow> nat \<Rightarrow> nat \<Rightarrow> nat option" where
  "digits_at bs i n =
     (let ds = map (\<lambda>k. byte_at bs (i + k)) [0 ..< n]
      in if list_all (\<lambda>b. 48 \<le> b \<and> b \<le> 57) ds
         then Some (foldl (\<lambda>acc b. acc * 10 + (b - 48)) 0 ds) else None)"

definition is_leap :: "nat \<Rightarrow> bool" where
  "is_leap y = (y mod 4 = 0 \<and> (y mod 100 \<noteq> 0 \<or> y mod 400 = 0))"

definition days_in_month :: "nat \<Rightarrow> nat \<Rightarrow> nat" where
  "days_in_month y m =
     (if m = 2 then (if is_leap y then 29 else 28)
      else if m = 4 \<or> m = 6 \<or> m = 9 \<or> m = 11 then 30 else 31)"

definition calendar_date_ok :: "nat \<Rightarrow> nat \<Rightarrow> nat \<Rightarrow> bool" where
  "calendar_date_ok y m d = (1 \<le> y \<and> 1 \<le> m \<and> m \<le> 12 \<and> 1 \<le> d \<and> d \<le> days_in_month y m)"

text \<open>
  The days before 1 January of a year, and the ISO week date: week 53 exists in the years
  that begin on a Thursday, or on a Wednesday when they are leap years (Monday is day 0);
  the day must not lie after 31 December 9999, day number 3652059.
\<close>

definition days_before_year :: "nat \<Rightarrow> nat" where
  "days_before_year y = (y - 1) * 365 + (y - 1) div 4 - (y - 1) div 100 + (y - 1) div 400"

definition iso_week_date_ok :: "nat \<Rightarrow> nat \<Rightarrow> nat \<Rightarrow> bool" where
  "iso_week_date_ok y w d =
     (let first_weekday = days_before_year y mod 7;
          long_year = (first_weekday = 3 \<or> (first_weekday = 2 \<and> is_leap y));
          week1_monday = days_before_year y + 1 - first_weekday +
                         (if first_weekday > 3 then 7 else 0)
      in 1 \<le> y \<and> ((1 \<le> w \<and> w \<le> 52) \<or> (w = 53 \<and> long_year)) \<and> 1 \<le> d \<and> d \<le> 7 \<and>
         week1_monday + (w - 1) * 7 + d - 1 \<le> 3652059)"

definition fromisoformat_ok :: "string \<Rightarrow> bool" where
  "fromisoformat_ok s =
     (let bs = utf8_bytes s; len = length bs;
          sep = (byte_at bs 4 = 45);
          pos = (if sep then 5 else 4)
      in (len = 7 \<or> len = 8 \<or> len = 10) \<and>
         (case digits_at bs 0 4 of
            None \<Rightarrow> False
          | Some y \<Rightarrow>
              if byte_at bs pos = 87 then
                (case digits_at bs (pos + 1) 2 of
                   None \<Rightarrow> False
                 | Some w \<Rightarrow>
                     if pos + 3 < len then
                       \<not> (sep \<and> byte_at bs (pos + 3) \<noteq> 45) \<and>
                       (case digits_at bs (if sep then pos + 4 else pos + 3) 1 of
                          None \<Rightarrow> False
                        | Some d \<Rightarrow> iso_week_date_ok y w d)
                     else iso_week_date_ok y w 1)
              else
                (case digits_at bs pos 2 of
                   None \<Rightarrow> False
                 | Some m \<Rightarrow>
                     \<not> (sep \<and> byte_at bs (pos + 2) \<noteq> 45) \<and>
                     (case digits_at bs (if sep then pos + 3 else pos + 2) 2 of
                        None \<Rightarrow> False
                      | Some d \<Rightarrow> calendar_date_ok y m d))))"

text \<open>
  \<open>_q\<close> is \<open>urllib.parse.quote_plus(v, safe="")\<close>: letters, digits and \<open>_.-~\<close> stay,
  a space becomes \<open>+\<close>, every other character becomes the \<open>%XX\<close> escapes of its UTF-8
  bytes.
\<close>

definition hex_digit :: "nat \<Rightarrow> char" where
  "hex_digit n = ''0123456789ABCDEF'' ! (n mod 16)"

definition percent :: "nat \<Rightarrow> string" where
  "percent n = [CHR ''%'', hex_digit (n div 16), hex_digit n]"

definition q_char :: "char \<Rightarrow> string" where
  "q_char c = (let n = (of_char c :: nat) in
     if (48 \<le> n \<and> n \<le> 57) \<or> (65 \<le> n \<and> n \<le> 90) \<or> (97 \<le> n \<and> n \<le> 122) \<or>
        c = CHR ''_'' \<or> c = CHR ''.'' \<or> c = CHR ''-'' \<or> c = CHR ''~'' then [c]
     else if c = CHR '' '' then ''+''
     else if n < 128 then percent n
     else percent (192 + n div 64) @ percent (128 + n mod 64))"

definition q :: "string \<Rightarrow> string" where
  "q v = concat (map q_char v)"

text \<open>The enumerations \<open>_TRAVEL_CLASS\<close> and \<open>_STOPS_MAP\<close> (which maps \<open>"0"\<close> to \<open>None\<close>).\<close>

definition TRAVEL_CLASS :: "string \<Rightarrow> string option" where
  "TRAVEL_CLASS = map_of [(''1'', ''economy''), (''2'', ''premium-economy''),
     (''3'', ''business''), (''4'', ''first'')]"

definition STOPS_MAP :: "string \<Rightarrow> int option option" where
  "STOPS_MAP = map_of [(''0'', None), (''1'', Some 0), (''2'', Some 1), (''3'', Some 2)]"

section \<open>The payload encoder\<close>

text \<open>
  \<open>FlightData\<close> and \<open>Passengers\<close> of the fast-flights library are records here, and the
  keyword arguments handed to \<open>TFSData.from_interface\<close> are a record with one
  optional field for each key the program may set.  \<open>kw_max_stops\<close> is \<open>None\<close> when the
  key is absent and \<open>Some None\<close> when it is present with the value \<open>None\<close>.
\<close>

record leg =
  fd_date :: "string option"
  from_airport :: string
  to_airport :: string

record passengers =
  p_adults :: int
  p_children :: int
  p_infants_in_seat :: int
  p_infants_on_lap :: int

text \<open>
  The constructor \<open>Passengers\<close> of the library asserts that there are at most nine
  passengers and no more infants on lap than adults; it raises \<open>AssertionError\<close>
  otherwise.
\<close>

definition passengers_ok :: "passengers \<Rightarrow> bool" where
  "passengers_ok p =
     (p_adults p + p_children p + p_infants_in_seat p + p_infants_on_lap p \<le> 9 \<and>
      p_infants_on_lap p \<le> p_adults p)"

record tfs_kwargs =
  kw_flight_data :: "leg list"
  kw_trip :: string
  kw_passengers :: passengers
  kw_seat :: "string option"
  kw_max_stops :: "int option option"
  kw_include_airlines :: "string list option"
  kw_exclude_airlines :: "string list option"
  kw_dep_time_window :: "window option"
  kw_arr_time_window :: "window option"
  kw_dep_time_windows :: "window option list option"
  kw_arr_time_windows :: "window option list option"

text \<open>
  The encoder is an external collaborator and a parameter of the model: it stands for
  \<open>TFSData.from_interface(**kwargs)\<close> followed by \<open>.as_b64().decode()\<close>, and yields the
  token, or \<open>None\<close> when the construction raises \<open>TypeError\<close>.
\<close>

type_synonym encoder = "tfs_kwargs \<Rightarrow> string option"

section \<open>Coverage and links\<close>

record coverage =
  encoded :: "string list"
  approximated :: "string list"
  unmatched :: "string list"

record link_out =
  url :: string
  coverage :: coverage

text \<open>JSON values as \<open>json.loads\<close> returns them (numbers are the integers).\<close>

datatype json =
    JNull
  | JBool bool
  | JNum int
  | JStr string
  | JArr "json list"
  | JObj "(string \<times> json) list"

text \<open>
  The exceptions that leave \<open>build_gf_urls\<close>.  The first seven are the
  \<open>ValueError\<close>s the program raises itself, named after their messages;
  \<open>Type_Error\<close> is a \<open>TypeError\<close> of the encoder or of \<open>re.match\<close> on a value that
  is no string, \<open>Attribute_Error\<close> is \<open>leg.get\<close> on a leg that is no JSON object,
  \<open>Assertion_Error\<close> is the \<open>AssertionError\<close> of the constructor \<open>Passengers\<close>.
\<close>

datatype error =
    Invalid_Code string
  | Invalid_Date json
  | Invalid_Multi_City_Json
  | Leg_Fields_Missing
  | Airports_Required
  | Outbound_Date_Required
  | Return_Date_Required
  | Type_Error
  | Attribute_Error
  | Assertion_Error

section \<open>One link for one pair of places: \<open>_build_single_url\<close>\<close>

text \<open>The keyword arguments of \<open>_build_single_url\<close>.\<close>

record single_args =
  sa_dep :: string
  sa_arr :: string
  sa_outbound_date :: string
  sa_return_date :: "string option"
  sa_type :: "string option"
  sa_travel_class :: "string option"
  sa_adults :: int
  sa_children :: int
  sa_infants_in_seat :: int
  sa_infants_on_lap :: int
  sa_stops :: "string option"
  sa_include_airlines :: "string list"
  sa_exclude_airlines :: "string list"
  sa_outbound_times :: "string option"
  sa_return_times :: "string option"
  sa_hl :: string
  sa_gl :: string
  sa_currency :: string

text \<open>
  The legs and the flag \<open>round_trip\<close>:
  \<^verbatim>\<open>
  legs = [FlightData(date=outbound_date, from_airport=dep, to_airport=arr)]
  round_trip = False
  if declared_type == "2": pass
  elif declared_type == "1" or (return_date is not None and declared_type is None):
      round_trip = True
      legs.append(FlightData(date=return_date, from_airport=arr, to_airport=dep))
  elif declared_type in (None, "3"): pass
  \<close>
\<close>

definition trip_legs :: "single_args \<Rightarrow> leg list \<times> bool" where
  "trip_legs a =
     (let first = \<lparr>fd_date = Some (sa_outbound_date a), from_airport = sa_dep a,
                    to_airport = sa_arr a\<rparr>
      in if sa_type a = Some ''2'' then ([first], False)
         else if sa_type a = Some ''1'' \<or> (sa_return_date a \<noteq> None \<and> sa_type a = None)
           then ([first, \<lparr>fd_date = sa_return_date a, from_airport = sa_arr a,
                          to_airport = sa_dep a\<rparr>], True)
         else ([first], False))"

definition empty_coverage :: coverage where
  "empty_coverage = \<lparr>encoded = [], approximated = [], unmatched = []\<rparr>"

definition add_encoded :: "string \<Rightarrow> coverage \<Rightarrow> coverage" where
  "add_encoded e cov = cov\<lparr>encoded := encoded cov @ [e]\<rparr>"

definition add_approximated :: "string \<Rightarrow> coverage \<Rightarrow> coverage" where
  "add_approximated e cov = cov\<lparr>approximated := approximated cov @ [e]\<rparr>"

definition add_unmatched :: "string \<Rightarrow> coverage \<Rightarrow> coverage" where
  "add_unmatched e cov = cov\<lparr>unmatched := unmatched cov @ [e]\<rparr>"

text \<open>
  Seat / cabin:
  \<^verbatim>\<open>
  seat = None
  if travel_class and travel_class in _TRAVEL_CLASS:
      seat = _TRAVEL_CLASS[travel_class]; cov.encoded.append("travel_class")
  elif travel_class:
      cov.unmatched.append(f"travel_class ({travel_class})")
  \<close>
\<close>

definition cabin_step :: "string option \<Rightarrow> coverage \<Rightarrow> string option \<times> coverage" where
  "cabin_step travel_class cov =
     (if truthy travel_class \<and> TRAVEL_CLASS (the travel_class) \<noteq> None
        then (TRAVEL_CLASS (the travel_class), add_encoded ''travel_class'' cov)
      else if truthy travel_class
        then (None, add_unmatched (''travel_class ('' @ the travel_class @ '')'') cov)
      else (None, cov))"

text \<open>
  Stops:
  \<^verbatim>\<open>
  max_stops = None
  if stops is not None:
      if stops in _STOPS_MAP:
          max_stops = _STOPS_MAP[stops]; cov.encoded.append("stops")
      else:
          cov.unmatched.append(f"stops ({stops})")
  \<close>
\<close>

definition stops_step :: "string option \<Rightarrow> coverage \<Rightarrow> int option \<times> coverage" where
  "stops_step stops cov =
     (case stops of
        None \<Rightarrow> (None, cov)
      | Some s \<Rightarrow>
          (case STOPS_MAP s of
             Some v \<Rightarrow> (v, add_encoded ''stops'' cov)
           | None \<Rightarrow> (None, add_unmatched (''stops ('' @ s @ '')'') cov)))"

text \<open>
  The minimal keyword arguments; \<open>seat\<close> and \<open>max_stops\<close> are set only when they are
  not \<open>None\<close> (a seat name is never empty).
\<close>

definition base_kwargs ::
  "leg list \<Rightarrow> bool \<Rightarrow> passengers \<Rightarrow> string option \<Rightarrow> int option \<Rightarrow> tfs_kwargs" where
  "base_kwargs legs round_trip pax seat max_stops =
     \<lparr>kw_flight_data = legs,
      kw_trip = (if round_trip then ''round-trip'' else ''one-way''),
      kw_passengers = pax,
      kw_seat = seat,
      kw_max_stops = (case max_stops of None \<Rightarrow> None | Some n \<Rightarrow> Some (Some n)),
      kw_include_airlines = None, kw_exclude_airlines = None,
      kw_dep_time_window = None, kw_arr_time_window = None,
      kw_dep_time_windows = None, kw_arr_time_windows = None\<rparr>"

text \<open>
  \<open>_try_kw(key, value)\<close>: \<open>put\<close> is the update \<open>{**tfs_kwargs, key: value}\<close>.
  \<^verbatim>\<open>
  try:
      TFSData.from_interface(**{**tfs_kwargs, key: value})
      tfs_kwargs[key] = value; cov.encoded.append(key)
  except TypeError:
      cov.unmatched.append(f"{key} (not supported by installed fast-flights)")
  \<close>
\<close>

definition not_supported :: "string \<Rightarrow> string" where
  "not_supported key = key @ '' (not supported by installed fast-flights)''"

definition try_kw ::
  "encoder \<Rightarrow> string \<Rightarrow> (tfs_kwargs \<Rightarrow> tfs_kwargs) \<Rightarrow> tfs_kwargs \<times> coverage
     \<Rightarrow> tfs_kwargs \<times> coverage" where
  "try_kw enc key put st =
     (case enc (put (fst st)) of
        Some _ \<Rightarrow> (put (fst st), add_encoded key (snd st))
      | None \<Rightarrow> (fst st, add_unmatched (not_supported key) (snd st)))"

definition airline_steps ::
  "encoder \<Rightarrow> string list \<Rightarrow> string list \<Rightarrow> tfs_kwargs \<times> coverage \<Rightarrow> tfs_kwargs \<times> coverage" where
  "airline_steps enc inc exc st =
     (let st1 = (if inc \<noteq> []
                 then try_kw enc ''include_airlines'' (\<lambda>k. k\<lparr>kw_include_airlines := Some inc\<rparr>) st
                 else st)
      in if exc \<noteq> []
         then try_kw enc ''exclude_airlines'' (\<lambda>k. k\<lparr>kw_exclude_airlines := Some exc\<rparr>) st1
         else st1)"

definition window_steps ::
  "encoder \<Rightarrow> window option \<Rightarrow> window option \<Rightarrow> tfs_kwargs \<times> coverage
     \<Rightarrow> tfs_kwargs \<times> coverage" where
  "window_steps enc dep0 arr0 st =
     (let st1 = (if dep0 \<noteq> None
                 then try_kw enc ''dep_time_window'' (\<lambda>k. k\<lparr>kw_dep_time_window := dep0\<rparr>) st
                 else st)
      in if arr0 \<noteq> None
         then try_kw enc ''arr_time_window'' (\<lambda>k. k\<lparr>kw_arr_time_window := arr0\<rparr>) st1
         else st1)"

text \<open>
  The return leg's windows are probed together; a rejection leaves the keyword arguments
  as they were and records the approximation:
  \<^verbatim>\<open>
  if round_trip and (dep1 or arr1):
      added = False
      if dep1 or arr1:
          try:
              probe = dict(tfs_kwargs)
              probe["dep_time_windows"] = [dep0, dep1]
              probe["arr_time_windows"] = [arr0, arr1]
              TFSData.from_interface(**probe)
              tfs_kwargs[...] = ...; cov.encoded.append("dep_time_windows/arr_time_windows")
              added = True
          except TypeError: pass
      if not added and (dep1 or arr1):
          cov.approximated.append("return_times (per-leg windows unsupported; only outbound applied)")
  \<close>
\<close>

definition return_times_approximated :: string where
  "return_times_approximated =
     ''return_times (per-leg windows unsupported; only outbound applied)''"

definition return_window_step ::
  "encoder \<Rightarrow> bool \<Rightarrow> window option \<Rightarrow> window option \<Rightarrow> window option \<Rightarrow> window option
     \<Rightarrow> tfs_kwargs \<times> coverage \<Rightarrow> tfs_kwargs \<times> coverage" where
  "return_window_step enc round_trip dep0 arr0 dep1 arr1 st =
     (if round_trip \<and> (dep1 \<noteq> None \<or> arr1 \<noteq> None)
      then (let probe = (fst st)\<lparr>kw_dep_time_windows := Some [dep0, dep1],
                                  kw_arr_time_windows := Some [arr0, arr1]\<rparr>
            in case enc probe of
                 Some _ \<Rightarrow> (probe, add_encoded ''dep_time_windows/arr_time_windows'' (snd st))
               | None \<Rightarrow> (fst st, add_approximated return_times_approximated (snd st)))
      else st)"

text \<open>
  The passengers of one link: \<open>Passengers(adults=max(0, adults), ...)\<close>.
\<close>

definition clamped_passengers :: "single_args \<Rightarrow> passengers" where
  "clamped_passengers a =
     \<lparr>p_adults = max 0 (sa_adults a), p_children = max 0 (sa_children a),
      p_infants_in_seat = max 0 (sa_infants_in_seat a),
      p_infants_on_lap = max 0 (sa_infants_on_lap a)\<rparr>"

text \<open>
  The keyword arguments and the coverage just before the payload is built (the body of
  \<open>_build_single_url\<close> between the construction of the passengers and its last call of
  the encoder).
\<close>

definition single_tfs :: "encoder \<Rightarrow> single_args \<Rightarrow> tfs_kwargs \<times> coverage" where
  "single_tfs enc a =
     (let legs = fst (trip_legs a);
          round_trip = snd (trip_legs a);
          pax = clamped_passengers a;
          cabin = cabin_step (sa_travel_class a) empty_coverage;
          stops = stops_step (sa_stops a) (snd cabin);
          out_w = parse_time_window (sa_outbound_times a);
          ret_w = (if round_trip then parse_time_window (sa_return_times a) else (None, None));
          st0 = (base_kwargs legs round_trip pax (fst cabin) (fst stops), snd stops);
          st1 = airline_steps enc (sa_include_airlines a) (sa_exclude_airlines a) st0;
          st2 = window_steps enc (fst out_w) (snd out_w) st1
      in return_window_step enc round_trip (fst out_w) (snd out_w) (fst ret_w) (snd ret_w) st2)"

definition flights_url :: "string \<Rightarrow> string \<Rightarrow> string \<Rightarrow> string \<Rightarrow> string" where
  "flights_url tfs hl gl currency =
     ''https://www.google.com/travel/flights?'' @
     ''tfs='' @ q tfs @ ''&hl='' @ q hl @ ''&gl='' @ q gl @ ''&curr='' @ q currency"

text \<open>
  \<open>_build_single_url\<close>: the four validations in the order of the source, the
  construction of the passengers (whose assertion is not caught), the probes, the payload
  (whose rejection is not caught here) and the link.
\<close>

definition build_single_url :: "encoder \<Rightarrow> single_args \<Rightarrow> error + link_out" where
  "build_single_url enc a =
     (if \<not> is_airport_or_place (sa_dep a) then Inl (Invalid_Code (sa_dep a))
      else if \<not> is_airport_or_place (sa_arr a) then Inl (Invalid_Code (sa_arr a))
      else if \<not> fromisoformat_ok (sa_outbound_date a)
        then Inl (Invalid_Date (JStr (sa_outbound_date a)))
      else if truthy (sa_return_date a) \<and> \<not> fromisoformat_ok (the (sa_return_date a))
        then Inl (Invalid_Date (JStr (the (sa_return_date a))))
      else if \<not> passengers_ok (clamped_passengers a) then Inl Assertion_Error
      else (case enc (fst (single_tfs enc a)) of
              None \<Rightarrow> Inl Type_Error
            | Some tfs \<Rightarrow>
                Inr \<lparr>url = flights_url tfs (sa_hl a) (sa_gl a) (sa_currency a),
                     coverage = (snd (single_tfs enc a))
                       \<lparr>encoded := encoded (snd (single_tfs enc a)) @
                          [''tfs'', ''hl'', ''gl'', ''currency'']\<rparr>\<rparr>))"

section \<open>The request and the fallback parameters\<close>

text \<open>The keyword arguments of \<open>build_gf_urls\<close>, in the order of its signature.\<close>

record request =
  rq_departure_id :: "string option"
  rq_arrival_id :: "string option"
  rq_outbound_date :: "string option"
  rq_return_date :: "string option"
  rq_type :: "string option"
  rq_travel_class :: "string option"
  rq_adults :: int
  rq_children :: int
  rq_infants_in_seat :: int
  rq_infants_on_lap :: int
  rq_stops :: "string option"
  rq_include_airlines :: "string option"
  rq_exclude_airlines :: "string option"
  rq_outbound_times :: "string option"
  rq_return_times :: "string option"
  rq_hl :: string
  rq_gl :: string
  rq_currency :: string
  rq_deep_search :: "bool option"
  rq_show_hidden :: "bool option"
  rq_bags :: "int option"
  rq_max_price :: "int option"
  rq_sort_by :: "string option"
  rq_emissions :: "string option"
  rq_layover_duration :: "string option"
  rq_exclude_conns :: "string option"
  rq_max_duration :: "int option"
  rq_departure_token :: "string option"
  rq_booking_token :: "string option"
  rq_multi_city_json :: "string option"

text \<open>
  \<open>_serpapi_only_flags\<close>: the tests are those of the source, truth value for some
  fields, \<open>is not None\<close> for others, \<open>not in (None, 0)\<close> for \<open>bags\<close>.
\<close>

definition serpapi_only_flags :: "request \<Rightarrow> string list" where
  "serpapi_only_flags rq =
     (if rq_deep_search rq = Some True then [''deep_search (SerpApi-only)''] else []) @
     (if rq_show_hidden rq = Some True then [''show_hidden (SerpApi-only)''] else []) @
     (if rq_bags rq \<noteq> None \<and> rq_bags rq \<noteq> Some 0 then [''bags (no URL equivalent)''] else []) @
     (if rq_max_price rq \<noteq> None then [''max_price (no URL equivalent)''] else []) @
     (if rq_sort_by rq \<noteq> None then [''sort_by (no URL equivalent)''] else []) @
     (if rq_emissions rq \<noteq> None then [''emissions (no URL equivalent)''] else []) @
     (if truthy (rq_layover_duration rq) then [''layover_duration (no URL equivalent)''] else []) @
     (if truthy (rq_exclude_conns rq) then [''exclude_conns (no URL equivalent)''] else []) @
     (if rq_max_duration rq \<noteq> None then [''max_duration (no URL equivalent)''] else []) @
     (if truthy (rq_departure_token rq)
        then [''departure_token (result-navigation, SerpApi-only)''] else []) @
     (if truthy (rq_booking_token rq)
        then [''booking_token (booking step, SerpApi-only)''] else [])"

text \<open>
  The values a keyword argument of \<open>build_serpapi_params\<close> can have.  \<open>VOpaque\<close>
  stands for the objects held by the local variables of \<open>build_gf_urls\<close> that are not
  parameters; a dictionary is an association list in insertion order, its keys distinct.
\<close>

datatype pyval = VNone | VBool bool | VInt int | VStr string | VList "string list" | VOpaque

type_synonym pydict = "(string \<times> pyval) list"

definition opt_str :: "string option \<Rightarrow> pyval" where
  "opt_str s = (case s of None \<Rightarrow> VNone | Some t \<Rightarrow> VStr t)"

definition opt_int :: "int option \<Rightarrow> pyval" where
  "opt_int i = (case i of None \<Rightarrow> VNone | Some n \<Rightarrow> VInt n)"

definition opt_bool :: "bool option \<Rightarrow> pyval" where
  "opt_bool b = (case b of None \<Rightarrow> VNone | Some t \<Rightarrow> VBool t)"

text \<open>The parameters as \<open>locals()\<close> lists them.\<close>

definition request_locals :: "request \<Rightarrow> pydict" where
  "request_locals rq =
     [(''departure_id'', opt_str (rq_departure_id rq)),
      (''arrival_id'', opt_str (rq_arrival_id rq)),
      (''outbound_date'', opt_str (rq_outbound_date rq)),
      (''return_date'', opt_str (rq_return_date rq)),
      (''type'', opt_str (rq_type rq)),
      (''travel_class'', opt_str (rq_travel_class rq)),
      (''adults'', VInt (rq_adults rq)),
      (''children'', VInt (rq_children rq)),
      (''infants_in_seat'', VInt (rq_infants_in_seat rq)),
      (''infants_on_lap'', VInt (rq_infants_on_lap rq)),
      (''stops'', opt_str (rq_stops rq)),
      (''include_airlines'', opt_str (rq_include_airlines rq)),
      (''exclude_airlines'', opt_str (rq_exclude_airlines rq)),
      (''outbound_times'', opt_str (rq_outbound_times rq)),
      (''return_times'', opt_str (rq_return_times rq)),
      (''hl'', VStr (rq_hl rq)),
      (''gl'', VStr (rq_gl rq)),
      (''currency'', VStr (rq_currency rq)),
      (''deep_search'', opt_bool (rq_deep_search rq)),
      (''show_hidden'', opt_bool (rq_show_hidden rq)),
      (''bags'', opt_int (rq_bags rq)),
      (''max_price'', opt_int (rq_max_price rq)),
      (''sort_by'', opt_str (rq_sort_by rq)),
      (''emissions'', opt_str (rq_emissions rq)),
      (''layover_duration'', opt_str (rq_layover_duration rq)),
      (''exclude_conns'', opt_str (rq_exclude_conns rq)),
      (''max_duration'', opt_int (rq_max_duration rq)),
      (''departure_token'', opt_str (rq_departure_token rq)),
      (''booking_token'', opt_str (rq_booking_token rq)),
      (''multi_city_json'', opt_str (rq_multi_city_json rq))]"

text \<open>
  The other local variables alive at the \<open>return\<close> of the single-pair path and of the
  multi-city path (the loop variables among them when their loop has run).
\<close>

definition single_path_locals :: pydict where
  "single_path_locals = map (\<lambda>k. (k, VOpaque))
     [''cov_global_unmatched'', ''deps'', ''arrs'', ''links'', ''dep'', ''arr'', ''lo'']"

definition multi_city_locals :: pydict where
  "multi_city_locals = map (\<lambda>k. (k, VOpaque))
     [''cov_global_unmatched'', ''legs'', ''legs_in'', ''leg'', ''d'', ''a'', ''dt'', ''links'',
      ''ff_legs'', ''pax'', ''tfs_kwargs'', ''key'', ''raw'', ''tfs'', ''url'', ''i'', ''lo'']"

text \<open>\<open>d | {key: value}\<close> and \<open>d.setdefault(key, value)\<close> on a dictionary.\<close>

definition dict_set :: "pydict \<Rightarrow> string \<Rightarrow> pyval \<Rightarrow> pydict" where
  "dict_set d k v =
     (if k \<in> fst ` set d then map (\<lambda>(k', v'). if k' = k then (k', v) else (k', v')) d
      else d @ [(k, v)])"

definition setdefault :: "pydict \<Rightarrow> string \<Rightarrow> pyval \<Rightarrow> pydict" where
  "setdefault d k v = (if k \<in> fst ` set d then d else d @ [(k, v)])"

definition allowed :: "string list" where
  "allowed =
     [''engine'', ''departure_id'', ''arrival_id'', ''outbound_date'', ''return_date'',
      ''hl'', ''gl'', ''currency'', ''type'', ''travel_class'', ''adults'', ''children'',
      ''infants_in_seat'', ''infants_on_lap'', ''stops'', ''include_airlines'',
      ''exclude_airlines'', ''bags'', ''max_price'', ''sort_by'', ''emissions'',
      ''layover_duration'', ''exclude_conns'', ''max_duration'', ''outbound_times'',
      ''return_times'', ''multi_city_json'', ''departure_token'', ''booking_token'',
      ''deep_search'', ''show_hidden'', ''no_cache'', ''async'', ''zero_trace'', ''api_key'',
      ''output'', ''json_restrictor'']"

text \<open>\<open>v in (None, "", [])\<close>\<close>

definition empty_val :: "pyval \<Rightarrow> bool" where
  "empty_val v = (v = VNone \<or> v = VStr [] \<or> v = VList [])"

text \<open>\<open>",".join(xs)\<close>\<close>

fun join_comma :: "string list \<Rightarrow> string" where
  "join_comma [] = []"
| "join_comma [x] = x"
| "join_comma (x # y # ys) = x @ '','' @ join_comma (y # ys)"

definition join_if_list :: "string \<times> pyval \<Rightarrow> string \<times> pyval" where
  "join_if_list kv =
     (if fst kv = ''include_airlines'' \<or> fst kv = ''exclude_airlines''
      then (case snd kv of VList xs \<Rightarrow> (fst kv, VStr (join_comma xs)) | _ \<Rightarrow> kv)
      else kv)"

text \<open>
  \<open>build_serpapi_params\<close>:
  \<^verbatim>\<open>
  result = {}
  for k, v in kwargs.items():
      if k in allowed and v not in (None, "", []): result[k] = v
  for key in ("include_airlines","exclude_airlines"):
      if isinstance(result.get(key), list): result[key] = ",".join(result[key])
  result.setdefault("engine", "google_flights")
  \<close>
\<close>

definition build_serpapi_params :: "pydict \<Rightarrow> pydict" where
  "build_serpapi_params kwargs =
     setdefault
       (map join_if_list (filter (\<lambda>kv. fst kv \<in> set allowed \<and> \<not> empty_val (snd kv)) kwargs))
       ''engine'' (VStr ''google_flights'')"

section \<open>\<open>build_gf_urls\<close>\<close>

text \<open>The dictionary \<open>build_gf_urls\<close> returns.\<close>

record result =
  links :: "link_out list"
  unmatched_global :: "string list"
  serpapi_fallback :: pydict

text \<open>
  Two more collaborators are parameters.  \<open>json.loads\<close> yields the parsed value, or
  \<open>None\<close> when it raises.  The order in which Python iterates over \<open>set(xs)\<close> depends on
  the hashes of the strings, which change from one interpreter run to the next: a
  \<open>set_order\<close> gives, for the list the set is built from, the elements of the set in the
  order of iteration, and \<open>valid_set_order\<close> says what every such order satisfies.
\<close>

type_synonym json_loads = "string \<Rightarrow> json option"

type_synonym set_order = "string list \<Rightarrow> string list"

definition valid_set_order :: "set_order \<Rightarrow> bool" where
  "valid_set_order so = (\<forall>xs. distinct (so xs) \<and> set (so xs) = set xs)"

text \<open>\<open>sorted(set(xs))\<close>\<close>

definition sorted_set :: "set_order \<Rightarrow> string list \<Rightarrow> string list" where
  "sorted_set so xs = sort (so xs)"

text \<open>A loop that appends one result per element and is left by the first exception.\<close>

fun collect :: "(error + 'a) list \<Rightarrow> error + 'a list" where
  "collect [] = Inr []"
| "collect (x # xs) =
     (case x of
        Inl e \<Rightarrow> Inl e
      | Inr v \<Rightarrow> (case collect xs of Inl e \<Rightarrow> Inl e | Inr vs \<Rightarrow> Inr (v # vs)))"

definition is_multi_city :: "request \<Rightarrow> bool" where
  "is_multi_city rq = (rq_type rq = Some ''3'' \<or> truthy (rq_multi_city_json rq))"

subsection \<open>The multi-city path\<close>

text \<open>The truth value of a JSON value, and \<open>leg.get(key)\<close> on an object.\<close>

fun json_truthy :: "json \<Rightarrow> bool" where
  "json_truthy JNull = False"
| "json_truthy (JBool b) = b"
| "json_truthy (JNum n) = (n \<noteq> 0)"
| "json_truthy (JStr s) = (s \<noteq> [])"
| "json_truthy (JArr xs) = (xs \<noteq> [])"
| "json_truthy (JObj kvs) = (kvs \<noteq> [])"

definition json_get :: "(string \<times> json) list \<Rightarrow> string \<Rightarrow> json" where
  "json_get kvs k = (case map_of kvs k of None \<Rightarrow> JNull | Some v \<Rightarrow> v)"

text \<open>
  \<^verbatim>\<open>
  try:
      legs_in = json.loads(multi_city_json) if multi_city_json else []
      assert isinstance(legs_in, list) and legs_in, "..."
  except Exception as e:
      raise ValueError(f"Invalid multi_city_json: {e}")
  \<close>
\<close>

definition load_legs :: "json_loads \<Rightarrow> string option \<Rightarrow> error + json list" where
  "load_legs jl mcj =
     (case (if truthy mcj then jl (the mcj) else Some (JArr [])) of
        Some (JArr (x # xs)) \<Rightarrow> Inr (x # xs)
      | _ \<Rightarrow> Inl Invalid_Multi_City_Json)"

record mc_leg =
  mc_dep :: string
  mc_arr :: string
  mc_date :: string

text \<open>
  \<open>_validate_airport_or_place\<close> and \<open>_validate_iso_date\<close> on a JSON value: the regular
  expression raises \<open>TypeError\<close> on a value that is no string, while every exception of
  \<open>date.fromisoformat\<close> is turned into the \<open>ValueError\<close>.
\<close>

definition validate_airport_or_place :: "json \<Rightarrow> error + string" where
  "validate_airport_or_place v =
     (case v of
        JStr s \<Rightarrow> if is_airport_or_place s then Inr s else Inl (Invalid_Code s)
      | _ \<Rightarrow> Inl Type_Error)"

definition validate_iso_date :: "json \<Rightarrow> error + string" where
  "validate_iso_date v =
     (case v of
        JStr s \<Rightarrow> if fromisoformat_ok s then Inr s else Inl (Invalid_Date v)
      | _ \<Rightarrow> Inl (Invalid_Date v))"

text \<open>
  One turn of the loop over \<open>legs_in\<close>:
  \<^verbatim>\<open>
  d = leg.get("departure_id"); a = leg.get("arrival_id"); dt = leg.get("date")
  if not (d and a and dt): raise ValueError("Each multi-city leg needs ...")
  _validate_airport_or_place(d); _validate_airport_or_place(a); _validate_iso_date(dt)
  legs.append(dict(dep=d, arr=a, date=dt))
  \<close>
\<close>

definition multi_city_leg :: "json \<Rightarrow> error + mc_leg" where
  "multi_city_leg leg =
     (case leg of
        JObj kvs \<Rightarrow>
          if \<not> (json_truthy (json_get kvs ''departure_id'') \<and>
                 json_truthy (json_get kvs ''arrival_id'') \<and>
                 json_truthy (json_get kvs ''date''))
          then Inl Leg_Fields_Missing
          else (case validate_airport_or_place (json_get kvs ''departure_id'') of
                  Inl e \<Rightarrow> Inl e
                | Inr d \<Rightarrow>
                    (case validate_airport_or_place (json_get kvs ''arrival_id'') of
                       Inl e \<Rightarrow> Inl e
                     | Inr a \<Rightarrow>
                         (case validate_iso_date (json_get kvs ''date'') of
                            Inl e \<Rightarrow> Inl e
                          | Inr dt \<Rightarrow> Inr \<lparr>mc_dep = d, mc_arr = a, mc_date = dt\<rparr>)))
      | _ \<Rightarrow> Inl Attribute_Error)"

text \<open>
  The passengers of the multi-city payload: the counts are passed as they are,
  \<open>Passengers(adults=adults, ...)\<close>.
\<close>

definition request_passengers :: "request \<Rightarrow> passengers" where
  "request_passengers rq =
     \<lparr>p_adults = rq_adults rq, p_children = rq_children rq,
      p_infants_in_seat = rq_infants_in_seat rq,
      p_infants_on_lap = rq_infants_on_lap rq\<rparr>"

text \<open>
  The keyword arguments of the multi-city payload; \<open>seat\<close> and \<open>max_stops\<close> are set when
  the code is a key of its table, so \<open>stops="0"\<close> sets \<open>max_stops\<close> to \<open>None\<close>.
\<close>

definition multi_city_kwargs :: "request \<Rightarrow> mc_leg list \<Rightarrow> tfs_kwargs" where
  "multi_city_kwargs rq legs =
     \<lparr>kw_flight_data = map (\<lambda>l. \<lparr>fd_date = Some (mc_date l), from_airport = mc_dep l,
                                  to_airport = mc_arr l\<rparr>) legs,
      kw_trip = ''multi-city'',
      kw_passengers = request_passengers rq,
      kw_seat = (case rq_travel_class rq of None \<Rightarrow> None | Some tc \<Rightarrow> TRAVEL_CLASS tc),
      kw_max_stops = (case rq_stops rq of None \<Rightarrow> None | Some s \<Rightarrow> STOPS_MAP s),
      kw_include_airlines = None, kw_exclude_airlines = None,
      kw_dep_time_window = None, kw_arr_time_window = None,
      kw_dep_time_windows = None, kw_arr_time_windows = None\<rparr>"

text \<open>
  The probes of the airline filters; a rejection goes to \<open>cov_global_unmatched\<close>.
\<close>

definition multi_try_kw ::
  "encoder \<Rightarrow> string \<Rightarrow> (tfs_kwargs \<Rightarrow> tfs_kwargs) \<Rightarrow> tfs_kwargs \<times> string list
     \<Rightarrow> tfs_kwargs \<times> string list" where
  "multi_try_kw enc key put st =
     (case enc (put (fst st)) of
        Some _ \<Rightarrow> (put (fst st), snd st)
      | None \<Rightarrow> (fst st, snd st @ [not_supported key]))"

definition multi_city_probes ::
  "encoder \<Rightarrow> request \<Rightarrow> tfs_kwargs \<Rightarrow> tfs_kwargs \<times> string list" where
  "multi_city_probes enc rq kw0 =
     (let inc = csv_to_list (rq_include_airlines rq);
          exc = csv_to_list (rq_exclude_airlines rq);
          st1 = (if inc \<noteq> []
                 then multi_try_kw enc ''include_airlines''
                        (\<lambda>k. k\<lparr>kw_include_airlines := Some inc\<rparr>) (kw0, [])
                 else (kw0, []))
      in if exc \<noteq> []
         then multi_try_kw enc ''exclude_airlines''
                (\<lambda>k. k\<lparr>kw_exclude_airlines := Some exc\<rparr>) st1
         else st1)"

text \<open>The call of \<open>_build_single_url\<close> for leg \<open>i\<close> when the multi-city payload is rejected.\<close>

definition fallback_args :: "request \<Rightarrow> mc_leg \<Rightarrow> single_args" where
  "fallback_args rq l =
     \<lparr>sa_dep = mc_dep l, sa_arr = mc_arr l, sa_outbound_date = mc_date l,
      sa_return_date = None, sa_type = Some ''2'',
      sa_travel_class = rq_travel_class rq,
      sa_adults = rq_adults rq, sa_children = rq_children rq,
      sa_infants_in_seat = rq_infants_in_seat rq, sa_infants_on_lap = rq_infants_on_lap rq,
      sa_stops = rq_stops rq,
      sa_include_airlines = csv_to_list (rq_include_airlines rq),
      sa_exclude_airlines = csv_to_list (rq_exclude_airlines rq),
      sa_outbound_times = None, sa_return_times = None,
      sa_hl = rq_hl rq, sa_gl = rq_gl rq, sa_currency = rq_currency rq\<rparr>"

definition multi_city_unsupported :: string where
  "multi_city_unsupported =
     ''multi-city (not supported by installed fast-flights; returned per-leg URLs)''"

text \<open>
  The links and \<open>cov_global_unmatched\<close> of the multi-city path.  The assertion of
  \<open>Passengers\<close> is inside the \<open>try\<close>, whose only handler is \<open>except TypeError\<close>, so it
  leaves the function.  Then one link when the payload is accepted; otherwise the
  \<open>TypeError\<close> is caught, and the loop \<open>for i in range(len(legs)-1)\<close> builds a one-way
  link from \<open>legs[i]\<close>.
\<close>

definition multi_city_links ::
  "encoder \<Rightarrow> request \<Rightarrow> mc_leg list \<Rightarrow> error + link_out list \<times> string list" where
  "multi_city_links enc rq legs =
     (if \<not> passengers_ok (request_passengers rq) then Inl Assertion_Error
      else
        (let st = multi_city_probes enc rq (multi_city_kwargs rq legs)
         in case enc (fst st) of
              Some tfs \<Rightarrow>
                Inr ([\<lparr>url = flights_url tfs (rq_hl rq) (rq_gl rq) (rq_currency rq),
                       coverage = \<lparr>encoded = [''tfs'', ''hl'', ''gl'', ''currency''],
                                   approximated = [], unmatched = []\<rparr>\<rparr>], snd st)
            | None \<Rightarrow>
                (case collect (map (\<lambda>i. build_single_url enc (fallback_args rq (legs ! i)))
                                 [0 ..< length legs - 1]) of
                   Inl e \<Rightarrow> Inl e
                 | Inr ls \<Rightarrow> Inr (ls, snd st @ [multi_city_unsupported]))))"

subsection \<open>The single-pair path\<close>

text \<open>The call of \<open>_build_single_url\<close> for one pair of the product of the two lists.\<close>

definition pair_args :: "request \<Rightarrow> string \<Rightarrow> string \<Rightarrow> single_args" where
  "pair_args rq d a =
     \<lparr>sa_dep = d, sa_arr = a, sa_outbound_date = the (rq_outbound_date rq),
      sa_return_date =
        (if rq_type rq = Some ''1'' \<or> (truthy (rq_return_date rq) \<and> rq_type rq = None)
         then rq_return_date rq else None),
      sa_type = rq_type rq,
      sa_travel_class = rq_travel_class rq,
      sa_adults = rq_adults rq, sa_children = rq_children rq,
      sa_infants_in_seat = rq_infants_in_seat rq, sa_infants_on_lap = rq_infants_on_lap rq,
      sa_stops = rq_stops rq,
      sa_include_airlines = csv_to_list (rq_include_airlines rq),
      sa_exclude_airlines = csv_to_list (rq_exclude_airlines rq),
      sa_outbound_times = rq_outbound_times rq, sa_return_times = rq_return_times rq,
      sa_hl = rq_hl rq, sa_gl = rq_gl rq, sa_currency = rq_currency rq\<rparr>"

definition fallback_of :: "request \<Rightarrow> pydict \<Rightarrow> pydict" where
  "fallback_of rq other_locals =
     build_serpapi_params
       (dict_set (request_locals rq @ other_locals) ''engine'' (VStr ''google_flights''))"

definition build_gf_urls ::
  "set_order \<Rightarrow> encoder \<Rightarrow> json_loads \<Rightarrow> request \<Rightarrow> error + result" where
  "build_gf_urls so enc jl rq =
     (if is_multi_city rq then
        (case load_legs jl (rq_multi_city_json rq) of
           Inl e \<Rightarrow> Inl e
         | Inr legs_in \<Rightarrow>
             (case collect (map multi_city_leg legs_in) of
                Inl e \<Rightarrow> Inl e
              | Inr legs \<Rightarrow>
                  (case multi_city_links enc rq legs of
                     Inl e \<Rightarrow> Inl e
                   | Inr lu \<Rightarrow>
                       Inr \<lparr>links = fst lu,
                            unmatched_global = sorted_set so (snd lu @ serpapi_only_flags rq),
                            serpapi_fallback = fallback_of rq multi_city_locals\<rparr>)))
      else if csv_to_list (rq_departure_id rq) = [] \<or> csv_to_list (rq_arrival_id rq) = []
        then Inl Airports_Required
      else if \<not> truthy (rq_outbound_date rq) then Inl Outbound_Date_Required
      else if rq_type rq = Some ''1'' \<and> \<not> truthy (rq_return_date rq)
        then Inl Return_Date_Required
      else (case collect (map (\<lambda>da. build_single_url enc (pair_args rq (fst da) (snd da)))
                            (List.product (csv_to_list (rq_departure_id rq))
                                          (csv_to_list (rq_arrival_id rq)))) of
              Inl e \<Rightarrow> Inl e
            | Inr ls \<Rightarrow>
                Inr \<lparr>links = ls,
                     unmatched_global = sorted_set so (serpapi_only_flags rq),
                     serpapi_fallback = fallback_of rq single_path_locals\<rparr>))"

section \<open>Notions used by the properties\<close>

text \<open>
  The request lacks a structurally required field: for a single-pair request an empty
  origin or destination list, no outbound date, or type \<open>"1"\<close> without a return date; for a
  multi-city request a payload that is not a non-empty JSON array of objects each carrying
  \<open>departure_id\<close>, \<open>arrival_id\<close> and \<open>date\<close>.
\<close>

definition leg_carries_fields :: "json \<Rightarrow> bool" where
  "leg_carries_fields leg =
     (case leg of
        JObj kvs \<Rightarrow> json_truthy (json_get kvs ''departure_id'') \<and>
                    json_truthy (json_get kvs ''arrival_id'') \<and>
                    json_truthy (json_get kvs ''date'')
      | _ \<Rightarrow> False)"

definition payload_well_formed :: "json_loads \<Rightarrow> string option \<Rightarrow> bool" where
  "payload_well_formed jl mcj =
     (case (if truthy mcj then jl (the mcj) else None) of
        Some (JArr legs) \<Rightarrow> legs \<noteq> [] \<and> list_all leg_carries_fields legs
      | _ \<Rightarrow> False)"

definition required_field_missing :: "json_loads \<Rightarrow> request \<Rightarrow> bool" where
  "required_field_missing jl rq =
     (if is_multi_city rq then \<not> payload_well_formed jl (rq_multi_city_json rq)
      else csv_to_list (rq_departure_id rq) = [] \<or> csv_to_list (rq_arrival_id rq) = [] \<or>
           \<not> truthy (rq_outbound_date rq) \<or>
           (rq_type rq = Some ''1'' \<and> \<not> truthy (rq_return_date rq)))"

text \<open>The \<open>ValueError\<close>s raised for a missing field, and all the \<open>ValueError\<close>s.\<close>

fun is_missing_field_error :: "error \<Rightarrow> bool" where
  "is_missing_field_error Invalid_Multi_City_Json = True"
| "is_missing_field_error Leg_Fields_Missing = True"
| "is_missing_field_error Airports_Required = True"
| "is_missing_field_error Outbound_Date_Required = True"
| "is_missing_field_error Return_Date_Required = True"
| "is_missing_field_error _ = False"

fun is_value_error :: "error \<Rightarrow> bool" where
  "is_value_error Type_Error = False"
| "is_value_error Attribute_Error = False"
| "is_value_error Assertion_Error = False"
| "is_value_error _ = True"

text \<open>
  A multi-city payload is well typed when every element of the array is a JSON object
  whose \<open>departure_id\<close> and \<open>arrival_id\<close> are strings where they are present (a value
  that Python takes for false, such as \<open>null\<close> or an empty string, counts as absent).
  On any other array the loop over the legs may stop with the \<open>AttributeError\<close> of
  \<open>leg.get\<close> or the \<open>TypeError\<close> of \<open>re.match\<close>.
\<close>

definition place_code_typed :: "json \<Rightarrow> bool" where
  "place_code_typed v = (case v of JStr _ \<Rightarrow> True | _ \<Rightarrow> \<not> json_truthy v)"

definition leg_well_typed :: "json \<Rightarrow> bool" where
  "leg_well_typed leg =
     (case leg of
        JObj kvs \<Rightarrow> place_code_typed (json_get kvs ''departure_id'') \<and>
                    place_code_typed (json_get kvs ''arrival_id'')
      | _ \<Rightarrow> False)"

definition legs_well_typed :: "json_loads \<Rightarrow> request \<Rightarrow> bool" where
  "legs_well_typed jl rq =
     (if is_multi_city rq \<and> truthy (rq_multi_city_json rq) then
        (case jl (the (rq_multi_city_json rq)) of
           Some (JArr legs) \<Rightarrow> list_all leg_well_typed legs
         | _ \<Rightarrow> True)
      else True)"


text \<open>
  An entry of the global unmatched list is a field name followed by a remark in
  parentheses; \<open>field_of_entry\<close> is the name.
\<close>

definition field_of_entry :: "string \<Rightarrow> string" where
  "field_of_entry e = takeWhile (\<lambda>c. c \<noteq> CHR '' '') e"

text \<open>The three lists of a coverage have no entry in common.\<close>

definition pairwise_disjoint :: "coverage \<Rightarrow> bool" where
  "pairwise_disjoint c =
     (set (encoded c) \<inter> set (approximated c) = {} \<and>
      set (encoded c) \<inter> set (unmatched c) = {} \<and>
      set (approximated c) \<inter> set (unmatched c) = {})"

section \<open>Test doubles\<close>

text \<open>
  Concrete collaborators for evaluating the model: an encoder that accepts every
  construction and names the route in its token, one that rejects every construction, one
  that rejects only the multi-city trip; a request with the defaults of the signature; a
  \<open>json.loads\<close> that knows one three-leg payload.
\<close>

definition route_of :: "tfs_kwargs \<Rightarrow> string" where
  "route_of kw = concat (map (\<lambda>l. from_airport l @ to_airport l) (kw_flight_data kw))"

definition accepting_encoder :: encoder where
  "accepting_encoder kw = Some (route_of kw)"


definition no_multi_city_encoder :: encoder where
  "no_multi_city_encoder kw =
     (if kw_trip kw = ''multi-city'' then None else Some (route_of kw))"

definition default_request :: request where
  "default_request =
     \<lparr>rq_departure_id = None, rq_arrival_id = None, rq_outbound_date = None,
      rq_return_date = None, rq_type = None, rq_travel_class = None,
      rq_adults = 1, rq_children = 0, rq_infants_in_seat = 0, rq_infants_on_lap = 0,
      rq_stops = None, rq_include_airlines = None, rq_exclude_airlines = None,
      rq_outbound_times = None, rq_return_times = None,
      rq_hl = ''en'', rq_gl = ''US'', rq_currency = ''USD'',
      rq_deep_search = None, rq_show_hidden = None, rq_bags = None, rq_max_price = None,
      rq_sort_by = None, rq_emissions = None, rq_layover_duration = None,
      rq_exclude_conns = None, rq_max_duration = None, rq_departure_token = None,
      rq_booking_token = None, rq_multi_city_json = None\<rparr>"

definition one_way_request :: request where
  "one_way_request =
     default_request\<lparr>rq_departure_id := Some ''SYD'', rq_arrival_id := Some ''MEL'',
       rq_outbound_date := Some ''2025-08-15''\<rparr>"

definition json_leg :: "string \<Rightarrow> string \<Rightarrow> string \<Rightarrow> json" where
  "json_leg d a dt =
     JObj [(''departure_id'', JStr d), (''arrival_id'', JStr a), (''date'', JStr dt)]"

definition three_legs_text :: string where
  \<open>three_legs_text = ''[{"departure_id":"JFK","arrival_id":"LHR","date":"2025-08-15"},{"departure_id":"LHR","arrival_id":"CDG","date":"2025-08-20"},{"departure_id":"CDG","arrival_id":"JFK","date":"2025-08-25"}]''\<close>

definition three_legs :: json where
  "three_legs = JArr [json_leg ''JFK'' ''LHR'' ''2025-08-15'',
                      json_leg ''LHR'' ''CDG'' ''2025-08-20'',
                      json_leg ''CDG'' ''JFK'' ''2025-08-25'']"

definition three_legs_loads :: json_loads where
  "three_legs_loads s = (if s = three_legs_text then Some three_legs else None)"

definition multi_city_request :: request where
  "multi_city_request =
     default_request\<lparr>rq_type := Some ''3'', rq_multi_city_json := Some three_legs_text\<rparr>"

definition multi_airport_request :: request where
  "multi_airport_request =
     one_way_request\<lparr>rq_departure_id := Some ''SYD,CBR'', rq_arrival_id := Some ''MEL, AVV''\<rparr>"

definition round_trip_request :: request where
  "round_trip_request =
     default_request\<lparr>rq_departure_id := Some ''LAX'', rq_arrival_id := Some ''JFK'',
       rq_outbound_date := Some ''2025-08-15'', rq_return_date := Some ''2025-08-20'',
       rq_type := Some ''1''\<rparr>"

definition advanced_request :: request where
  "advanced_request =
     default_request\<lparr>rq_departure_id := Some ''BOS'', rq_arrival_id := Some ''MIA'',
       rq_outbound_date := Some ''2025-08-15'', rq_return_date := Some ''2025-08-20'',
       rq_type := Some ''1'', rq_travel_class := Some ''1'', rq_stops := Some ''2'',
       rq_bags := Some 2, rq_max_price := Some 500, rq_sort_by := Some ''2'',
       rq_emissions := Some ''1'', rq_layover_duration := Some ''90,300'',
       rq_exclude_conns := Some ''DFW,ORD'', rq_max_duration := Some 480,
       rq_deep_search := Some True, rq_show_hidden := Some True\<rparr>"

text \<open>A multi-city payload whose second leg has no date, and one whose only leg is a number.\<close>

definition leg_without_date :: json where
  "leg_without_date =
     JArr [json_leg ''JFK'' ''LHR'' ''2025-08-15'',
           JObj [(''departure_id'', JStr ''LHR''), (''arrival_id'', JStr ''CDG'')]]"

definition leg_without_date_loads :: json_loads where
  "leg_without_date_loads s = Some leg_without_date"

definition number_leg_loads :: json_loads where
  "number_leg_loads s = Some (JArr [JNum 7])"

text \<open>A multi-city request for ten adults.\<close>

definition ten_adults_request :: request where
  "ten_adults_request = multi_city_request\<lparr>rq_adults := 10\<rparr>"

text \<open>An iteration order of a set other than that of \<open>remdups\<close>.\<close>

definition reversed_set_order :: set_order where
  "reversed_set_order xs = rev (remdups xs)"

definition one_way_with_return :: request where
  "one_way_with_return =
     default_request\<lparr>rq_departure_id := Some ''LAX'', rq_arrival_id := Some ''JFK'',
       rq_outbound_date := Some ''2025-08-15'', rq_return_date := Some ''2025-08-20'',
       rq_type := Some ''2''\<rparr>"

definition invalid_code_request :: request where
  "invalid_code_request = one_way_request\<lparr>rq_departure_id := Some ''sydney''\<rparr>"

definition empty_sort_request :: request where
  "empty_sort_request = one_way_request\<lparr>rq_sort_by := Some []\<rparr>"

text \<open>
  The coverage of a link in closed form.  Each probe of \<open>_build_single_url\<close> has one
  of two outcomes; given the outcome of the probe of the included airlines, the excluded
  airlines, the departure window, the arrival window and the paired return windows,
  \<open>coverage_table\<close> lists what the three lists hold before \<open>tfs\<close>, \<open>hl\<close>, \<open>gl\<close> and
  \<open>currency\<close> are appended.
\<close>

definition optional_entry :: "bool \<Rightarrow> string \<Rightarrow> string list" where
  "optional_entry c x = (if c then [x] else [])"

definition known_cabin :: "single_args \<Rightarrow> bool" where
  "known_cabin a = (truthy (sa_travel_class a) \<and> TRAVEL_CLASS (the (sa_travel_class a)) \<noteq> None)"

definition known_stops :: "single_args \<Rightarrow> bool" where
  "known_stops a = (sa_stops a \<noteq> None \<and> STOPS_MAP (the (sa_stops a)) \<noteq> None)"

definition return_windows :: "single_args \<Rightarrow> bool" where
  "return_windows a =
     (snd (trip_legs a) \<and> parse_time_window (sa_return_times a) \<noteq> (None, None))"

definition coverage_table :: "single_args \<Rightarrow> bool \<Rightarrow> bool \<Rightarrow> bool \<Rightarrow> bool \<Rightarrow> bool \<Rightarrow> coverage" where
  "coverage_table a inc exc dep arr ret =
     \<lparr>encoded =
        optional_entry (known_cabin a) ''travel_class'' @
        optional_entry (known_stops a) ''stops'' @
        optional_entry (sa_include_airlines a \<noteq> [] \<and> inc) ''include_airlines'' @
        optional_entry (sa_exclude_airlines a \<noteq> [] \<and> exc) ''exclude_airlines'' @
        optional_entry (fst (parse_time_window (sa_outbound_times a)) \<noteq> None \<and> dep)
          ''dep_time_window'' @
        optional_entry (snd (parse_time_window (sa_outbound_times a)) \<noteq> None \<and> arr)
          ''arr_time_window'' @
        optional_entry (return_windows a \<and> ret) ''dep_time_windows/arr_time_windows'',
      approximated = optional_entry (return_windows a \<and> \<not> ret) return_times_approximated,
      unmatched =
        optional_entry (truthy (sa_travel_class a) \<and> \<not> known_cabin a)
          (''travel_class ('' @ the (sa_travel_class a) @ '')'') @
        optional_entry (sa_stops a \<noteq> None \<and> \<not> known_stops a)
          (''stops ('' @ the (sa_stops a) @ '')'') @
        optional_entry (sa_include_airlines a \<noteq> [] \<and> \<not> inc) (not_supported ''include_airlines'') @
        optional_entry (sa_exclude_airlines a \<noteq> [] \<and> \<not> exc) (not_supported ''exclude_airlines'') @
        optional_entry (fst (parse_time_window (sa_outbound_times a)) \<noteq> None \<and> \<not> dep)
          (not_supported ''dep_time_window'') @
        optional_entry (snd (parse_time_window (sa_outbound_times a)) \<noteq> None \<and> \<not> arr)
          (not_supported ''arr_time_window'')\<rparr>"

definition malformed_window_request :: request where
  "malformed_window_request = one_way_request\<lparr>rq_outbound_times := Some ''1,2,3''\<rparr>"

definition unknown_trip_type_request :: request where
  "unknown_trip_type_request = one_way_request\<lparr>rq_type := Some ''7''\<rparr>"

definition unknown_codes_request :: request where
  "unknown_codes_request =
     one_way_request\<lparr>rq_travel_class := Some ''9'', rq_stops := Some ''5'',
       rq_include_airlines := Some ''QF''\<rparr>"

section \<open>Properties of the time-window parser\<close>

lemma those_length: "those xs = Some ys \<Longrightarrow> length ys = length xs"
  by (induction xs arbitrary: ys) (auto split: option.splits)

lemma split_comma_nonempty: "split_comma s \<noteq> []"
  by (induction s) (auto split: list.splits)

lemma py_int_empty: "py_int [] = None"
  by (simp add: py_int_def strip_def)

text \<open>
  C4: a string of exactly two comma-separated integers parses to one pair of hours, a
  string of exactly four to two pairs (so \<open>8,18,12,22\<close> gives \<open>(8,18)\<close> and \<open>(12,22)\<close>);
  every other number of pieces, and every piece that is no integer, gives no window at all.
  The parser returns a value on every input: the only exception of its body, the
  \<open>ValueError\<close> of \<open>int\<close>, is caught.
\<close>

theorem parse_time_window_arity:
  "(map py_int (map strip (split_comma w)) = [Some a, Some b] \<longrightarrow>
      parse_time_window (Some w) = (Some (a, b), None)) \<and>
   (map py_int (map strip (split_comma w)) = [Some a, Some b, Some c, Some d] \<longrightarrow>
      parse_time_window (Some w) = (Some (a, b), Some (c, d))) \<and>
   (length (split_comma w) \<noteq> 2 \<and> length (split_comma w) \<noteq> 4 \<longrightarrow>
      parse_time_window (Some w) = (None, None)) \<and>
   (None \<in> set (map py_int (map strip (split_comma w))) \<longrightarrow>
      parse_time_window (Some w) = (None, None)) \<and>
   parse_time_window None = (None, None) \<and>
   parse_time_window (Some ''8,18,12,22'') = (Some (8, 18), Some (12, 22)) \<and>
   parse_time_window (Some ''1,2,3'') = (None, None)"
proof (intro conjI impI)
  assume h: "map py_int (map strip (split_comma w)) = [Some a, Some b]"
  have "w \<noteq> []" using h by (auto simp: py_int_empty strip_def)
  then show "parse_time_window (Some w) = (Some (a, b), None)"
    using h by (simp add: parse_time_window_def truthy_def)
next
  assume h: "map py_int (map strip (split_comma w)) = [Some a, Some b, Some c, Some d]"
  have "w \<noteq> []" using h by (auto simp: py_int_empty strip_def)
  then show "parse_time_window (Some w) = (Some (a, b), Some (c, d))"
    using h by (simp add: parse_time_window_def truthy_def)
next
  assume h: "length (split_comma w) \<noteq> 2 \<and> length (split_comma w) \<noteq> 4"
  show "parse_time_window (Some w) = (None, None)"
  proof (cases "those (map py_int (map strip (split_comma w)))")
    case None
    then show ?thesis by (simp add: parse_time_window_def)
  next
    case (Some ints)
    from those_length [OF Some] have "length ints = length (split_comma w)" by simp
    with h Some show ?thesis by (simp add: parse_time_window_def)
  qed
next
  assume h: "None \<in> set (map py_int (map strip (split_comma w)))"
  have "those xs = None" if "None \<in> set xs" for xs :: "int option list"
    using that by (induction xs) (auto split: option.splits)
  from this [OF h] show "parse_time_window (Some w) = (None, None)"
    by (simp add: parse_time_window_def)
next
  show "parse_time_window None = (None, None)"
    by (simp add: parse_time_window_def truthy_def)
next
  show "parse_time_window (Some ''8,18,12,22'') = (Some (8, 18), Some (12, 22))"
    by code_simp
next
  show "parse_time_window (Some ''1,2,3'') = (None, None)"
    by code_simp
qed

theorem parse_time_window_arity_witness:
  "parse_time_window (Some ''6, 18'') = (Some (6, 18), None) \<and>
   parse_time_window (Some ''10,20,12,22'') = (Some (10, 20), Some (12, 22)) \<and>
   parse_time_window (Some ''1,2,3,4,5'') = (None, None)"
proof -
  have two: "map py_int (map strip (split_comma ''6, 18'')) = [Some 6, Some 18]"
    by code_simp
  have four: "map py_int (map strip (split_comma ''10,20,12,22'')) =
      [Some 10, Some 20, Some 12, Some 22]"
    by code_simp
  have five: "length (split_comma ''1,2,3,4,5'') \<noteq> 2 \<and> length (split_comma ''1,2,3,4,5'') \<noteq> 4"
    by simp
  from parse_time_window_arity [of "''6, 18''" 6 18 0 0] two
  have r2: "parse_time_window (Some ''6, 18'') = (Some (6, 18), None)" by blast
  from parse_time_window_arity [of "''10,20,12,22''" 10 20 12 22] four
  have r4: "parse_time_window (Some ''10,20,12,22'') = (Some (10, 20), Some (12, 22))" by blast
  from parse_time_window_arity [of "''1,2,3,4,5''" 0 0 0 0] five
  have r5: "parse_time_window (Some ''1,2,3,4,5'') = (None, None)" by blast
  from r2 r4 r5 show ?thesis by blast
qed

section \<open>Properties of the single-pair path\<close>

lemma collect_Inr_iff: "collect xs = Inr ys \<longleftrightarrow> xs = map Inr ys"
proof (induction xs arbitrary: ys)
  case Nil
  then show ?case by auto
next
  case (Cons x xs)
  show ?case
  proof (cases x)
    case (Inl e)
    then show ?thesis by (cases ys) auto
  next
    case (Inr v)
    show ?thesis
    proof (cases "collect xs")
      case (Inl e)
      have "xs \<noteq> map Inr zs" for zs using Cons.IH [of zs] Inl by simp
      then show ?thesis using Inr Inl by (cases ys) auto
    next
      case r: (Inr vs)
      then have "xs = map Inr vs" using Cons.IH by simp
      then show ?thesis using Inr r by (cases ys) auto
    qed
  qed
qed


lemma collect_Inl_mem: "collect xs = Inl e \<Longrightarrow> Inl e \<in> set xs"
proof (induction xs)
  case Nil
  then show ?case by simp
next
  case (Cons x xs)
  show ?case
  proof (cases x)
    case (Inl e')
    with Cons.prems show ?thesis by simp
  next
    case (Inr v)
    with Cons.prems have "collect xs = Inl e" by (simp split: sum.splits)
    with Cons.IH show ?thesis by simp
  qed
qed

lemma collect_has_Inl: "Inl e \<in> set xs \<Longrightarrow> \<exists>e'. collect xs = Inl e'"
proof (induction xs)
  case Nil
  then show ?case by simp
next
  case (Cons x xs)
  show ?case
  proof (cases x)
    case (Inl e')
    then show ?thesis by simp
  next
    case (Inr v)
    with Cons.prems have "Inl e \<in> set xs" by auto
    with Cons.IH obtain e' where "collect xs = Inl e'" by blast
    with Inr show ?thesis by simp
  qed
qed

lemma collect_total:
  "(\<forall>x\<in>set xs. \<exists>y. f x = Inr y) \<Longrightarrow> \<exists>ys. collect (map f xs) = Inr ys"
proof (induction xs)
  case Nil
  then show ?case by simp
next
  case (Cons x xs)
  from Cons.prems obtain y where y: "f x = Inr y" by auto
  from Cons.prems have "\<forall>x\<in>set xs. \<exists>y. f x = Inr y" by simp
  with Cons.IH obtain ys where "collect (map f xs) = Inr ys" by blast
  with y show ?case by simp
qed

lemma build_gf_urls_single:
  "\<not> is_multi_city rq \<Longrightarrow>
   build_gf_urls so enc jl rq =
     (if csv_to_list (rq_departure_id rq) = [] \<or> csv_to_list (rq_arrival_id rq) = []
        then Inl Airports_Required
      else if \<not> truthy (rq_outbound_date rq) then Inl Outbound_Date_Required
      else if rq_type rq = Some ''1'' \<and> \<not> truthy (rq_return_date rq)
        then Inl Return_Date_Required
      else (case collect (map (\<lambda>da. build_single_url enc (pair_args rq (fst da) (snd da)))
                            (List.product (csv_to_list (rq_departure_id rq))
                                          (csv_to_list (rq_arrival_id rq)))) of
              Inl e \<Rightarrow> Inl e
            | Inr ls \<Rightarrow>
                Inr \<lparr>links = ls,
                     unmatched_global = sorted_set so (serpapi_only_flags rq),
                     serpapi_fallback = fallback_of rq single_path_locals\<rparr>))"
  unfolding build_gf_urls_def by (simp only: if_False)


lemma div_mod_index:
  fixes i j n :: nat
  assumes "j < n"
  shows "(i * n + j) div n = i" and "(i * n + j) mod n = j"
proof -
  from assms have "n \<noteq> 0" by simp
  then have "(i * n + j) div n = i + j div n" by (rule div_mult_self3)
  with assms show "(i * n + j) div n = i" by simp
  show "(i * n + j) mod n = j" using assms by simp
qed

lemma single_path_links:
  assumes "\<not> is_multi_city rq" and "build_gf_urls so enc jl rq = Inr r"
  shows "map (\<lambda>da. build_single_url enc (pair_args rq (fst da) (snd da)))
             (List.product (csv_to_list (rq_departure_id rq)) (csv_to_list (rq_arrival_id rq)))
         = map Inr (links r)"
proof -
  let ?c = "collect (map (\<lambda>da. build_single_url enc (pair_args rq (fst da) (snd da)))
             (List.product (csv_to_list (rq_departure_id rq)) (csv_to_list (rq_arrival_id rq))))"
  show ?thesis
  proof (cases ?c)
    case (Inl e)
    with assms show ?thesis
      by (simp add: build_gf_urls_single split: if_splits)
  next
    case (Inr ls)
    with assms have "links r = ls"
      by (auto simp add: build_gf_urls_single split: if_splits)
    with Inr show ?thesis by (simp only: collect_Inr_iff)
  qed
qed

text \<open>
  C1: a single-pair request whose origin list has \<open>m\<close> codes and whose destination list
  has \<open>n\<close> codes yields \<open>m * n\<close> links, and the link at position \<open>i * n + j\<close> is the one
  built for origin \<open>i\<close> and destination \<open>j\<close>: destinations vary inside origins, both in
  the order of the input.  The links are returned whenever the required fields are there
  and every pair can be built.
\<close>

theorem links_cartesian_product:
  "\<not> is_multi_city rq \<longrightarrow>
   (build_gf_urls so enc jl rq = Inr r \<longrightarrow>
      length (links r) =
        length (csv_to_list (rq_departure_id rq)) * length (csv_to_list (rq_arrival_id rq)) \<and>
      (\<forall>i < length (csv_to_list (rq_departure_id rq)).
       \<forall>j < length (csv_to_list (rq_arrival_id rq)).
         build_single_url enc (pair_args rq (csv_to_list (rq_departure_id rq) ! i)
                                            (csv_to_list (rq_arrival_id rq) ! j)) =
         Inr (links r ! (i * length (csv_to_list (rq_arrival_id rq)) + j)))) \<and>
   (csv_to_list (rq_departure_id rq) \<noteq> [] \<and> csv_to_list (rq_arrival_id rq) \<noteq> [] \<and>
    truthy (rq_outbound_date rq) \<and>
    \<not> (rq_type rq = Some ''1'' \<and> \<not> truthy (rq_return_date rq)) \<and>
    (\<forall>d \<in> set (csv_to_list (rq_departure_id rq)).
     \<forall>a \<in> set (csv_to_list (rq_arrival_id rq)).
       \<exists>l. build_single_url enc (pair_args rq d a) = Inr l) \<longrightarrow>
    (\<exists>r'. build_gf_urls so enc jl rq = Inr r'))"
proof (intro impI conjI allI)
  assume single: "\<not> is_multi_city rq" and res: "build_gf_urls so enc jl rq = Inr r"
  let ?deps = "csv_to_list (rq_departure_id rq)" and ?arrs = "csv_to_list (rq_arrival_id rq)"
  let ?f = "\<lambda>da. build_single_url enc (pair_args rq (fst da) (snd da))"
  have eq: "map ?f (List.product ?deps ?arrs) = map Inr (links r)"
    by (rule single_path_links [OF single res])
  from arg_cong [OF eq, of length]
  show len: "length (links r) = length ?deps * length ?arrs"
    by simp
  fix i j
  assume i: "i < length ?deps" and j: "j < length ?arrs"
  have "i * length ?arrs + j < Suc i * length ?arrs" using j by simp
  also have "\<dots> \<le> length ?deps * length ?arrs"
    using i by (intro mult_le_mono1) simp
  finally have lt: "i * length ?arrs + j < length ?deps * length ?arrs" .
  have p: "List.product ?deps ?arrs ! (i * length ?arrs + j) = (?deps ! i, ?arrs ! j)"
  proof -
    from lt show ?thesis
      by (simp only: product_nth div_mod_index [OF j])
  qed
  have "map ?f (List.product ?deps ?arrs) ! (i * length ?arrs + j) =
        ?f (List.product ?deps ?arrs ! (i * length ?arrs + j))"
    using lt by (intro nth_map) simp
  also have "\<dots> = build_single_url enc (pair_args rq (?deps ! i) (?arrs ! j))"
    by (simp only: p fst_conv snd_conv)
  finally have "build_single_url enc (pair_args rq (?deps ! i) (?arrs ! j)) =
      map Inr (links r) ! (i * length ?arrs + j)"
    by (simp only: eq)
  also have "\<dots> = Inr (links r ! (i * length ?arrs + j))"
    using lt len by (intro nth_map) simp
  finally show "build_single_url enc (pair_args rq (?deps ! i) (?arrs ! j)) =
      Inr (links r ! (i * length ?arrs + j))" .
next
  assume single: "\<not> is_multi_city rq"
  assume pre: "csv_to_list (rq_departure_id rq) \<noteq> [] \<and> csv_to_list (rq_arrival_id rq) \<noteq> [] \<and>
    truthy (rq_outbound_date rq) \<and>
    \<not> (rq_type rq = Some ''1'' \<and> \<not> truthy (rq_return_date rq)) \<and>
    (\<forall>d \<in> set (csv_to_list (rq_departure_id rq)).
     \<forall>a \<in> set (csv_to_list (rq_arrival_id rq)).
       \<exists>l. build_single_url enc (pair_args rq d a) = Inr l)"
  let ?f = "\<lambda>da. build_single_url enc (pair_args rq (fst da) (snd da))"
  have "\<forall>da \<in> set (List.product (csv_to_list (rq_departure_id rq))
                      (csv_to_list (rq_arrival_id rq))). \<exists>l. ?f da = Inr l"
    using pre by auto
  from collect_total [OF this] obtain ls where
    "collect (map ?f (List.product (csv_to_list (rq_departure_id rq))
                      (csv_to_list (rq_arrival_id rq)))) = Inr ls" ..
  then show "\<exists>r'. build_gf_urls so enc jl rq = Inr r'"
    using single pre by (simp add: build_gf_urls_single)
qed

theorem links_cartesian_product_witness:
  "\<not> is_multi_city multi_airport_request \<and>
   csv_to_list (rq_departure_id multi_airport_request) = [''SYD'', ''CBR''] \<and>
   csv_to_list (rq_arrival_id multi_airport_request) = [''MEL'', ''AVV''] \<and>
   (\<exists>r. build_gf_urls remdups accepting_encoder three_legs_loads multi_airport_request = Inr r \<and>
        length (links r) = 4 \<and>
        build_single_url accepting_encoder (pair_args multi_airport_request ''CBR'' ''MEL'') =
          Inr (links r ! 2))"
proof -
  have single: "\<not> is_multi_city multi_airport_request"
    by code_simp
  have deps: "csv_to_list (rq_departure_id multi_airport_request) = [''SYD'', ''CBR'']"
    by code_simp
  have arrs: "csv_to_list (rq_arrival_id multi_airport_request) = [''MEL'', ''AVV'']"
    by code_simp
  have pre: "truthy (rq_outbound_date multi_airport_request) \<and>
      \<not> (rq_type multi_airport_request = Some ''1'' \<and>
         \<not> truthy (rq_return_date multi_airport_request))"
    by code_simp
  have ok: "\<forall>d \<in> set [''SYD'', ''CBR'']. \<forall>a \<in> set [''MEL'', ''AVV''].
      \<exists>l. build_single_url accepting_encoder (pair_args multi_airport_request d a) = Inr l"
    by (simp add: build_single_url_def pair_args_def multi_airport_request_def
        one_way_request_def default_request_def accepting_encoder_def truthy_def)
       code_simp
  have "\<exists>r. build_gf_urls remdups accepting_encoder three_legs_loads multi_airport_request = Inr r"
    using links_cartesian_product
      [of multi_airport_request remdups accepting_encoder three_legs_loads undefined]
      single deps arrs pre ok
    by simp
  then obtain r where
    r: "build_gf_urls remdups accepting_encoder three_legs_loads multi_airport_request = Inr r" ..
  have T: "length (links r) = length [''SYD'', ''CBR''] * length [''MEL'', ''AVV''] \<and>
      (\<forall>i < length [''SYD'', ''CBR'']. \<forall>j < length [''MEL'', ''AVV''].
         build_single_url accepting_encoder
           (pair_args multi_airport_request ([''SYD'', ''CBR''] ! i) ([''MEL'', ''AVV''] ! j)) =
         Inr (links r ! (i * length [''MEL'', ''AVV''] + j)))"
    using links_cartesian_product
      [of multi_airport_request remdups accepting_encoder three_legs_loads r] single r
    unfolding deps arrs by blast
  from T have len: "length (links r) = 4" by simp
  have lt1: "(1::nat) < length [''SYD'', ''CBR'']" and lt0: "(0::nat) < length [''MEL'', ''AVV'']"
    by simp_all
  from T lt1 lt0 have "build_single_url accepting_encoder
        (pair_args multi_airport_request ([''SYD'', ''CBR''] ! 1) ([''MEL'', ''AVV''] ! 0)) =
        Inr (links r ! (1 * length [''MEL'', ''AVV''] + 0))"
    by blast
  then have "build_single_url accepting_encoder (pair_args multi_airport_request ''CBR'' ''MEL'') =
        Inr (links r ! 2)"
    by (simp add: numeral_2_eq_2)
  with single deps arrs r len show ?thesis by auto
qed

section \<open>Properties of the itinerary of one link\<close>

lemma try_kw_fst:
  "fst (try_kw enc key put st) = put (fst st) \<or> fst (try_kw enc key put st) = fst st"
  by (simp add: try_kw_def split: option.splits)

lemma airline_steps_itinerary:
  "kw_flight_data (fst (airline_steps enc inc exc st)) = kw_flight_data (fst st) \<and>
   kw_trip (fst (airline_steps enc inc exc st)) = kw_trip (fst st)"
  by (simp add: airline_steps_def try_kw_def Let_def split: option.splits)

lemma window_steps_itinerary:
  "kw_flight_data (fst (window_steps enc d0 a0 st)) = kw_flight_data (fst st) \<and>
   kw_trip (fst (window_steps enc d0 a0 st)) = kw_trip (fst st)"
  by (simp add: window_steps_def try_kw_def Let_def split: option.splits)

lemma return_window_step_itinerary:
  "kw_flight_data (fst (return_window_step enc rt d0 a0 d1 a1 st)) = kw_flight_data (fst st) \<and>
   kw_trip (fst (return_window_step enc rt d0 a0 d1 a1 st)) = kw_trip (fst st)"
  by (simp add: return_window_step_def Let_def split: option.splits)

lemma single_tfs_itinerary:
  "kw_flight_data (fst (single_tfs enc a)) = fst (trip_legs a) \<and>
   kw_trip (fst (single_tfs enc a)) = (if snd (trip_legs a) then ''round-trip'' else ''one-way'')"
  by (simp add: single_tfs_def Let_def return_window_step_itinerary window_steps_itinerary
      airline_steps_itinerary base_kwargs_def)

lemma trip_legs_round:
  "snd (trip_legs a) \<Longrightarrow>
   fst (trip_legs a) =
     [\<lparr>fd_date = Some (sa_outbound_date a), from_airport = sa_dep a, to_airport = sa_arr a\<rparr>,
      \<lparr>fd_date = sa_return_date a, from_airport = sa_arr a, to_airport = sa_dep a\<rparr>]"
  by (simp add: trip_legs_def Let_def split: if_splits)

lemma trip_legs_one_way:
  "\<not> snd (trip_legs a) \<Longrightarrow>
   fst (trip_legs a) =
     [\<lparr>fd_date = Some (sa_outbound_date a), from_airport = sa_dep a, to_airport = sa_arr a\<rparr>]"
  by (simp add: trip_legs_def Let_def split: if_splits)

lemma trip_legs_round_iff:
  "snd (trip_legs a) \<longleftrightarrow>
   sa_type a \<noteq> Some ''2'' \<and> (sa_type a = Some ''1'' \<or> (sa_return_date a \<noteq> None \<and> sa_type a = None))"
  by (simp add: trip_legs_def Let_def)

text \<open>
  C2: when a link is compiled as a round trip, its itinerary has exactly two legs; the
  first goes from the origin to the destination on the outbound date, the second has the
  first one's destination as origin and the first one's origin as destination, and carries
  the return date.  For a link of \<open>build_gf_urls\<close> that date is the return date of the
  request, which is not empty.
\<close>

theorem round_trip_mirrored_legs:
  "kw_trip (fst (single_tfs enc a)) = ''round-trip'' \<longrightarrow>
     length (kw_flight_data (fst (single_tfs enc a))) = 2 \<and>
     kw_flight_data (fst (single_tfs enc a)) ! 0 =
       \<lparr>fd_date = Some (sa_outbound_date a), from_airport = sa_dep a, to_airport = sa_arr a\<rparr> \<and>
     from_airport (kw_flight_data (fst (single_tfs enc a)) ! 1) =
       to_airport (kw_flight_data (fst (single_tfs enc a)) ! 0) \<and>
     to_airport (kw_flight_data (fst (single_tfs enc a)) ! 1) =
       from_airport (kw_flight_data (fst (single_tfs enc a)) ! 0) \<and>
     fd_date (kw_flight_data (fst (single_tfs enc a)) ! 1) = sa_return_date a \<and>
     (a = pair_args rq d x \<and> \<not> (rq_type rq = Some ''1'' \<and> \<not> truthy (rq_return_date rq)) \<longrightarrow>
        sa_return_date a = rq_return_date rq \<and> truthy (rq_return_date rq))"
proof
  assume rt: "kw_trip (fst (single_tfs enc a)) = ''round-trip''"
  have round: "snd (trip_legs a)"
  proof (rule ccontr)
    assume "\<not> snd (trip_legs a)"
    with single_tfs_itinerary [of enc a] rt show False by simp
  qed
  from single_tfs_itinerary [of enc a] trip_legs_round [OF round]
  have legs: "kw_flight_data (fst (single_tfs enc a)) =
     [\<lparr>fd_date = Some (sa_outbound_date a), from_airport = sa_dep a, to_airport = sa_arr a\<rparr>,
      \<lparr>fd_date = sa_return_date a, from_airport = sa_arr a, to_airport = sa_dep a\<rparr>]"
    by simp
  have req: "a = pair_args rq d x \<and> \<not> (rq_type rq = Some ''1'' \<and> \<not> truthy (rq_return_date rq)) \<longrightarrow>
        sa_return_date a = rq_return_date rq \<and> truthy (rq_return_date rq)"
    using round unfolding trip_legs_round_iff
    by (auto simp: pair_args_def split: if_splits)
  have main: "length (kw_flight_data (fst (single_tfs enc a))) = 2 \<and>
     kw_flight_data (fst (single_tfs enc a)) ! 0 =
       \<lparr>fd_date = Some (sa_outbound_date a), from_airport = sa_dep a, to_airport = sa_arr a\<rparr> \<and>
     from_airport (kw_flight_data (fst (single_tfs enc a)) ! 1) =
       to_airport (kw_flight_data (fst (single_tfs enc a)) ! 0) \<and>
     to_airport (kw_flight_data (fst (single_tfs enc a)) ! 1) =
       from_airport (kw_flight_data (fst (single_tfs enc a)) ! 0) \<and>
     fd_date (kw_flight_data (fst (single_tfs enc a)) ! 1) = sa_return_date a"
    by (simp add: legs)
  from main req show "length (kw_flight_data (fst (single_tfs enc a))) = 2 \<and>
     kw_flight_data (fst (single_tfs enc a)) ! 0 =
       \<lparr>fd_date = Some (sa_outbound_date a), from_airport = sa_dep a, to_airport = sa_arr a\<rparr> \<and>
     from_airport (kw_flight_data (fst (single_tfs enc a)) ! 1) =
       to_airport (kw_flight_data (fst (single_tfs enc a)) ! 0) \<and>
     to_airport (kw_flight_data (fst (single_tfs enc a)) ! 1) =
       from_airport (kw_flight_data (fst (single_tfs enc a)) ! 0) \<and>
     fd_date (kw_flight_data (fst (single_tfs enc a)) ! 1) = sa_return_date a \<and>
     (a = pair_args rq d x \<and> \<not> (rq_type rq = Some ''1'' \<and> \<not> truthy (rq_return_date rq)) \<longrightarrow>
        sa_return_date a = rq_return_date rq \<and> truthy (rq_return_date rq))"
    by blast
qed

theorem round_trip_mirrored_legs_witness:
  "kw_trip (fst (single_tfs accepting_encoder (pair_args round_trip_request ''LAX'' ''JFK''))) =
     ''round-trip'' \<and>
   kw_flight_data (fst (single_tfs accepting_encoder
       (pair_args round_trip_request ''LAX'' ''JFK''))) =
     [\<lparr>fd_date = Some ''2025-08-15'', from_airport = ''LAX'', to_airport = ''JFK''\<rparr>,
      \<lparr>fd_date = Some ''2025-08-20'', from_airport = ''JFK'', to_airport = ''LAX''\<rparr>] \<and>
   fd_date (kw_flight_data (fst (single_tfs accepting_encoder
       (pair_args round_trip_request ''LAX'' ''JFK''))) ! 1) = rq_return_date round_trip_request"
proof -
  let ?a = "pair_args round_trip_request ''LAX'' ''JFK''"
  have rt: "kw_trip (fst (single_tfs accepting_encoder ?a)) = ''round-trip''"
    by code_simp
  have legs: "kw_flight_data (fst (single_tfs accepting_encoder ?a)) =
     [\<lparr>fd_date = Some ''2025-08-15'', from_airport = ''LAX'', to_airport = ''JFK''\<rparr>,
      \<lparr>fd_date = Some ''2025-08-20'', from_airport = ''JFK'', to_airport = ''LAX''\<rparr>]"
    by code_simp
  have guard: "\<not> (rq_type round_trip_request = Some ''1'' \<and>
      \<not> truthy (rq_return_date round_trip_request))"
    by code_simp
  from round_trip_mirrored_legs
    [of accepting_encoder ?a round_trip_request "''LAX''" "''JFK''"] rt guard
  have "fd_date (kw_flight_data (fst (single_tfs accepting_encoder ?a)) ! 1) =
      rq_return_date round_trip_request"
    by simp
  with rt legs show ?thesis by blast
qed

section \<open>Properties of the whole result\<close>

lemma build_gf_urls_multi:
  "is_multi_city rq \<Longrightarrow>
   build_gf_urls so enc jl rq =
     (case load_legs jl (rq_multi_city_json rq) of
        Inl e \<Rightarrow> Inl e
      | Inr legs_in \<Rightarrow>
          (case collect (map multi_city_leg legs_in) of
             Inl e \<Rightarrow> Inl e
           | Inr legs \<Rightarrow>
               (case multi_city_links enc rq legs of
                  Inl e \<Rightarrow> Inl e
                | Inr lu \<Rightarrow>
                    Inr \<lparr>links = fst lu,
                         unmatched_global = sorted_set so (snd lu @ serpapi_only_flags rq),
                         serpapi_fallback = fallback_of rq multi_city_locals\<rparr>)))"
  unfolding build_gf_urls_def by (simp only: if_True)

lemma sorted_set_unique:
  assumes "valid_set_order so" and "valid_set_order so'"
  shows "sorted_set so xs = sorted_set so' xs"
proof -
  from assms have "distinct (so xs)" "distinct (so' xs)" "set (so xs) = set (so' xs)"
    by (simp_all add: valid_set_order_def)
  then show ?thesis
    unfolding sorted_set_def
    by (intro sorted_distinct_set_unique) simp_all
qed

lemma sorted_set_props:
  assumes "valid_set_order so"
  shows "sorted (sorted_set so xs)" and "distinct (sorted_set so xs)"
    and "set (sorted_set so xs) = set xs"
  using assms by (simp_all add: sorted_set_def valid_set_order_def)

lemma build_gf_urls_unmatched_shape:
  assumes "build_gf_urls so enc jl rq = Inr r"
  shows "\<exists>un. unmatched_global r = sorted_set so (un @ serpapi_only_flags rq)"
proof (cases "is_multi_city rq")
  case True
  from assms show ?thesis
    unfolding build_gf_urls_multi [OF True]
    by (auto split: sum.splits)
next
  case False
  from assms have "unmatched_global r = sorted_set so ([] @ serpapi_only_flags rq)"
    unfolding build_gf_urls_single [OF False]
    by (auto split: sum.splits if_splits)
  then show ?thesis by blast
qed

text \<open>
  C8: the result does not depend on the order in which the interpreter iterates over the
  set of unmatched entries, the one thing in \<open>build_gf_urls\<close> that changes from run to
  run: for the same encoder, the same \<open>json.loads\<close> and the same request, any two such
  orders give the same links, the same coverage, the same global unmatched list and the
  same fallback mapping.  The global unmatched list is sorted and free of duplicates.
\<close>

theorem build_gf_urls_deterministic:
  "valid_set_order so \<and> valid_set_order so' \<longrightarrow>
     build_gf_urls so enc jl rq = build_gf_urls so' enc jl rq \<and>
     (build_gf_urls so enc jl rq = Inr r \<longrightarrow>
        sorted (unmatched_global r) \<and> distinct (unmatched_global r))"
proof (intro impI conjI)
  assume v: "valid_set_order so \<and> valid_set_order so'"
  then have "sorted_set so = sorted_set so'"
    by (intro ext sorted_set_unique) simp_all
  then show "build_gf_urls so enc jl rq = build_gf_urls so' enc jl rq"
    by (simp only: build_gf_urls_def)
next
  assume v: "valid_set_order so \<and> valid_set_order so'"
    and r: "build_gf_urls so enc jl rq = Inr r"
  from build_gf_urls_unmatched_shape [OF r] obtain un where
    "unmatched_global r = sorted_set so (un @ serpapi_only_flags rq)" ..
  with v show "sorted (unmatched_global r)" and "distinct (unmatched_global r)"
    by (simp_all add: sorted_set_props)
qed

lemma valid_remdups: "valid_set_order remdups"
  by (simp add: valid_set_order_def)

lemma valid_rev_remdups: "valid_set_order (\<lambda>xs. rev (remdups xs))"
  by (simp add: valid_set_order_def)

theorem build_gf_urls_deterministic_witness:
  "valid_set_order remdups \<and> valid_set_order reversed_set_order \<and>
   build_gf_urls remdups accepting_encoder three_legs_loads advanced_request =
     build_gf_urls reversed_set_order accepting_encoder three_legs_loads advanced_request \<and>
   (\<exists>r. build_gf_urls reversed_set_order accepting_encoder three_legs_loads advanced_request = Inr r \<and>
        sorted (unmatched_global r) \<and> distinct (unmatched_global r) \<and>
        length (unmatched_global r) = 9)"
proof -
  have v: "valid_set_order reversed_set_order \<and> valid_set_order remdups"
    using valid_remdups by (simp add: valid_set_order_def reversed_set_order_def)
  have "case build_gf_urls reversed_set_order accepting_encoder three_legs_loads advanced_request of
          Inl e \<Rightarrow> False | Inr r \<Rightarrow> length (unmatched_global r) = 9"
    by code_simp
  then obtain r where
    r: "build_gf_urls reversed_set_order accepting_encoder three_legs_loads advanced_request = Inr r"
    and len: "length (unmatched_global r) = 9"
    by (cases "build_gf_urls reversed_set_order accepting_encoder three_legs_loads advanced_request")
       simp_all
  from build_gf_urls_deterministic
    [of reversed_set_order remdups accepting_encoder three_legs_loads advanced_request r] v r
  have "build_gf_urls reversed_set_order accepting_encoder three_legs_loads advanced_request =
      build_gf_urls remdups accepting_encoder three_legs_loads advanced_request"
    and "sorted (unmatched_global r)" and "distinct (unmatched_global r)"
    by simp_all
  with v r len show ?thesis by auto
qed

section \<open>The return date of a one-way request\<close>

lemma pair_args_one_way:
  "rq_type rq = Some ''2'' \<Longrightarrow>
   pair_args (rq\<lparr>rq_return_date := None\<rparr>) d x = pair_args rq d x"
  by (simp add: pair_args_def)

lemma one_way_drops_return:
  assumes single: "\<not> is_multi_city rq" and ty: "rq_type rq = Some ''2''"
  shows "build_gf_urls so enc jl rq =
     map_sum id (\<lambda>r. r\<lparr>serpapi_fallback := fallback_of rq single_path_locals\<rparr>)
       (build_gf_urls so enc jl (rq\<lparr>rq_return_date := None\<rparr>))"
proof -
  let ?rq = "rq\<lparr>rq_return_date := None\<rparr>"
  have single': "\<not> is_multi_city ?rq"
    using single by (simp add: is_multi_city_def)
  have flags: "serpapi_only_flags ?rq = serpapi_only_flags rq"
    by (simp add: serpapi_only_flags_def)
  show ?thesis
    unfolding build_gf_urls_single [OF single] build_gf_urls_single [OF single']
    by (simp add: pair_args_one_way [OF ty] flags ty split: sum.splits)
qed

text \<open>
  C10: a single-pair request with the one-way code \<open>type="2"\<close> and a return date is
  compiled as if the return date were absent: every link is a one-way itinerary of one
  leg, and the whole result (the error, or the links with their coverage and the global
  unmatched list) is that of the same request without the return date; only the fallback
  mapping still holds it.  The same request without the trip-type code is compiled as a
  round trip of two legs.
\<close>

theorem one_way_code_drops_return_date:
  "\<not> is_multi_city rq \<and> rq_type rq = Some ''2'' \<and> truthy (rq_return_date rq) \<longrightarrow>
     kw_trip (fst (single_tfs enc (pair_args rq d x))) = ''one-way'' \<and>
     kw_flight_data (fst (single_tfs enc (pair_args rq d x))) =
       [\<lparr>fd_date = Some (the (rq_outbound_date rq)), from_airport = d, to_airport = x\<rparr>] \<and>
     build_gf_urls so enc jl rq =
       map_sum id (\<lambda>r. r\<lparr>serpapi_fallback := fallback_of rq single_path_locals\<rparr>)
         (build_gf_urls so enc jl (rq\<lparr>rq_return_date := None\<rparr>)) \<and>
     kw_trip (fst (single_tfs enc (pair_args (rq\<lparr>rq_type := None\<rparr>) d x))) = ''round-trip'' \<and>
     kw_flight_data (fst (single_tfs enc (pair_args (rq\<lparr>rq_type := None\<rparr>) d x))) =
       [\<lparr>fd_date = Some (the (rq_outbound_date rq)), from_airport = d, to_airport = x\<rparr>,
        \<lparr>fd_date = rq_return_date rq, from_airport = x, to_airport = d\<rparr>]"
proof (intro impI)
  assume h: "\<not> is_multi_city rq \<and> rq_type rq = Some ''2'' \<and> truthy (rq_return_date rq)"
  have one: "\<not> snd (trip_legs (pair_args rq d x))"
    using h by (simp add: trip_legs_round_iff pair_args_def)
  have two: "snd (trip_legs (pair_args (rq\<lparr>rq_type := None\<rparr>) d x))"
    using h by (auto simp add: trip_legs_round_iff pair_args_def truthy_def split: option.splits)
  have a1: "kw_trip (fst (single_tfs enc (pair_args rq d x))) = ''one-way''"
    using single_tfs_itinerary [of enc "pair_args rq d x"] one by simp
  have a2: "kw_flight_data (fst (single_tfs enc (pair_args rq d x))) =
       [\<lparr>fd_date = Some (the (rq_outbound_date rq)), from_airport = d, to_airport = x\<rparr>]"
    using single_tfs_itinerary [of enc "pair_args rq d x"] trip_legs_one_way [OF one]
    by (simp add: pair_args_def)
  have a3: "build_gf_urls so enc jl rq =
       map_sum id (\<lambda>r. r\<lparr>serpapi_fallback := fallback_of rq single_path_locals\<rparr>)
         (build_gf_urls so enc jl (rq\<lparr>rq_return_date := None\<rparr>))"
    using h by (intro one_way_drops_return) simp_all
  have a4: "kw_trip (fst (single_tfs enc (pair_args (rq\<lparr>rq_type := None\<rparr>) d x))) = ''round-trip''"
    using single_tfs_itinerary [of enc "pair_args (rq\<lparr>rq_type := None\<rparr>) d x"] two by simp
  have a5: "kw_flight_data (fst (single_tfs enc (pair_args (rq\<lparr>rq_type := None\<rparr>) d x))) =
       [\<lparr>fd_date = Some (the (rq_outbound_date rq)), from_airport = d, to_airport = x\<rparr>,
        \<lparr>fd_date = rq_return_date rq, from_airport = x, to_airport = d\<rparr>]"
    using single_tfs_itinerary [of enc "pair_args (rq\<lparr>rq_type := None\<rparr>) d x"]
      trip_legs_round [OF two] h
    by (simp add: pair_args_def)
  from a1 a2 a3 a4 a5 show "kw_trip (fst (single_tfs enc (pair_args rq d x))) = ''one-way'' \<and>
     kw_flight_data (fst (single_tfs enc (pair_args rq d x))) =
       [\<lparr>fd_date = Some (the (rq_outbound_date rq)), from_airport = d, to_airport = x\<rparr>] \<and>
     build_gf_urls so enc jl rq =
       map_sum id (\<lambda>r. r\<lparr>serpapi_fallback := fallback_of rq single_path_locals\<rparr>)
         (build_gf_urls so enc jl (rq\<lparr>rq_return_date := None\<rparr>)) \<and>
     kw_trip (fst (single_tfs enc (pair_args (rq\<lparr>rq_type := None\<rparr>) d x))) = ''round-trip'' \<and>
     kw_flight_data (fst (single_tfs enc (pair_args (rq\<lparr>rq_type := None\<rparr>) d x))) =
       [\<lparr>fd_date = Some (the (rq_outbound_date rq)), from_airport = d, to_airport = x\<rparr>,
        \<lparr>fd_date = rq_return_date rq, from_airport = x, to_airport = d\<rparr>]"
    by (intro conjI)
qed

theorem one_way_code_drops_return_date_witness:
  "\<not> is_multi_city one_way_with_return \<and> rq_type one_way_with_return = Some ''2'' \<and>
   rq_return_date one_way_with_return = Some ''2025-08-20'' \<and>
   kw_flight_data (fst (single_tfs accepting_encoder
       (pair_args one_way_with_return ''LAX'' ''JFK''))) =
     [\<lparr>fd_date = Some ''2025-08-15'', from_airport = ''LAX'', to_airport = ''JFK''\<rparr>] \<and>
   kw_flight_data (fst (single_tfs accepting_encoder
       (pair_args (one_way_with_return\<lparr>rq_type := None\<rparr>) ''LAX'' ''JFK''))) =
     [\<lparr>fd_date = Some ''2025-08-15'', from_airport = ''LAX'', to_airport = ''JFK''\<rparr>,
      \<lparr>fd_date = Some ''2025-08-20'', from_airport = ''JFK'', to_airport = ''LAX''\<rparr>] \<and>
   build_gf_urls remdups accepting_encoder three_legs_loads one_way_with_return =
     Inr \<lparr>links =
            [\<lparr>url = ''https://www.google.com/travel/flights?tfs=LAXJFK&hl=en&gl=US&curr=USD'',
              coverage = \<lparr>encoded = [''tfs'', ''hl'', ''gl'', ''currency''],
                          approximated = [], unmatched = []\<rparr>\<rparr>],
          unmatched_global = [],
          serpapi_fallback = fallback_of one_way_with_return single_path_locals\<rparr>"
proof -
  have h: "\<not> is_multi_city one_way_with_return \<and> rq_type one_way_with_return = Some ''2'' \<and>
      truthy (rq_return_date one_way_with_return)"
    by code_simp
  have rd: "rq_return_date one_way_with_return = Some ''2025-08-20''"
    and od: "rq_outbound_date one_way_with_return = Some ''2025-08-15''"
    by code_simp+
  have without: "build_gf_urls remdups accepting_encoder three_legs_loads
      (one_way_with_return\<lparr>rq_return_date := None\<rparr>) =
     Inr \<lparr>links =
            [\<lparr>url = ''https://www.google.com/travel/flights?tfs=LAXJFK&hl=en&gl=US&curr=USD'',
              coverage = \<lparr>encoded = [''tfs'', ''hl'', ''gl'', ''currency''],
                          approximated = [], unmatched = []\<rparr>\<rparr>],
          unmatched_global = [],
          serpapi_fallback =
            fallback_of (one_way_with_return\<lparr>rq_return_date := None\<rparr>) single_path_locals\<rparr>"
    by code_simp
  from one_way_code_drops_return_date
    [of one_way_with_return accepting_encoder "''LAX''" "''JFK''" remdups three_legs_loads] h
  show ?thesis
    by (simp add: rd od without)
qed

section \<open>Validation errors\<close>

lemma build_single_url_error:
  "build_single_url enc a = Inl e \<Longrightarrow> \<not> is_missing_field_error e"
  by (auto simp: build_single_url_def split: if_splits option.splits)

lemma multi_city_leg_error:
  "multi_city_leg leg = Inl e \<Longrightarrow> is_missing_field_error e \<Longrightarrow> \<not> leg_carries_fields leg"
  by (cases leg)
     (auto simp: multi_city_leg_def leg_carries_fields_def validate_airport_or_place_def
        validate_iso_date_def split: if_splits sum.splits json.splits)

lemma multi_city_leg_fails:
  "\<not> leg_carries_fields leg \<Longrightarrow> \<exists>e. multi_city_leg leg = Inl e"
  by (cases leg) (auto simp: multi_city_leg_def leg_carries_fields_def)

lemma load_legs_Inl:
  "load_legs jl mcj = Inl e \<Longrightarrow> e = Invalid_Multi_City_Json \<and> \<not> payload_well_formed jl mcj"
  by (auto simp: load_legs_def payload_well_formed_def
      split: if_splits option.splits json.splits list.splits)

lemma load_legs_Inr:
  "load_legs jl mcj = Inr legs \<Longrightarrow>
   truthy mcj \<and> jl (the mcj) = Some (JArr legs) \<and> legs \<noteq> [] \<and>
   payload_well_formed jl mcj = list_all leg_carries_fields legs"
  by (auto simp: load_legs_def payload_well_formed_def
      split: if_splits option.splits json.splits list.splits)

lemma multi_city_links_error:
  "multi_city_links enc rq legs = Inl e \<Longrightarrow> \<not> is_missing_field_error e"
proof -
  assume a: "multi_city_links enc rq legs = Inl e"
  let ?c = "collect (map (\<lambda>i. build_single_url enc (fallback_args rq (legs ! i)))
                       [0 ..< length legs - 1])"
  show ?thesis
  proof (cases "passengers_ok (request_passengers rq)")
    case False
    with a have "e = Assertion_Error"
      by (simp add: multi_city_links_def)
    then show ?thesis by simp
  next
    case True
    with a have "?c = Inl e"
      by (simp add: multi_city_links_def Let_def split: option.splits sum.splits)
    from collect_Inl_mem [OF this] obtain i where
      "build_single_url enc (fallback_args rq (legs ! i)) = Inl e" by auto
    then show ?thesis by (rule build_single_url_error)
  qed
qed

lemma multi_city_leg_value_error:
  "leg_well_typed leg \<Longrightarrow> multi_city_leg leg = Inl e \<Longrightarrow> is_value_error e"
  by (cases leg)
     (auto simp: multi_city_leg_def leg_well_typed_def place_code_typed_def
        validate_airport_or_place_def validate_iso_date_def
        split: if_splits sum.splits json.splits)

lemma multi_path_missing:
  assumes m: "is_multi_city rq"
  shows "\<not> payload_well_formed jl (rq_multi_city_json rq) \<Longrightarrow> legs_well_typed jl rq \<Longrightarrow>
           \<exists>e. build_gf_urls so enc jl rq = Inl e \<and> is_value_error e"
    and "build_gf_urls so enc jl rq = Inl e \<Longrightarrow> is_missing_field_error e \<Longrightarrow>
           \<not> payload_well_formed jl (rq_multi_city_json rq)"
proof -
  assume bad: "\<not> payload_well_formed jl (rq_multi_city_json rq)"
    and typed: "legs_well_typed jl rq"
  show "\<exists>e. build_gf_urls so enc jl rq = Inl e \<and> is_value_error e"
  proof (cases "load_legs jl (rq_multi_city_json rq)")
    case (Inl e)
    with load_legs_Inl [OF Inl] show ?thesis by (simp add: build_gf_urls_multi [OF m])
  next
    case (Inr legs_in)
    note ll = load_legs_Inr [OF Inr]
    from typed m ll have wt: "list_all leg_well_typed legs_in"
      by (simp add: legs_well_typed_def)
    from bad ll have "\<not> list_all leg_carries_fields legs_in" by simp
    then obtain leg where "leg \<in> set legs_in" "\<not> leg_carries_fields leg"
      by (auto simp: list_all_iff)
    with multi_city_leg_fails obtain e where "Inl e \<in> set (map multi_city_leg legs_in)"
      by (metis image_eqI list.set_map)
    from collect_has_Inl [OF this] obtain e' where
      c: "collect (map multi_city_leg legs_in) = Inl e'" ..
    from collect_Inl_mem [OF c] obtain leg' where
      "leg' \<in> set legs_in" "multi_city_leg leg' = Inl e'" by auto
    with wt have "is_value_error e'"
      by (auto simp: list_all_iff intro: multi_city_leg_value_error)
    with Inr c show ?thesis by (simp add: build_gf_urls_multi [OF m])
  qed
next
  assume r: "build_gf_urls so enc jl rq = Inl e" and k: "is_missing_field_error e"
  show "\<not> payload_well_formed jl (rq_multi_city_json rq)"
  proof (cases "load_legs jl (rq_multi_city_json rq)")
    case (Inl e')
    from load_legs_Inl [OF Inl] show ?thesis by simp
  next
    case legs_in: (Inr legs_in)
    show ?thesis
    proof (cases "collect (map multi_city_leg legs_in)")
      case (Inl e')
      with r legs_in have "e' = e" by (simp add: build_gf_urls_multi [OF m])
      with collect_Inl_mem [OF Inl] obtain leg where
        "leg \<in> set legs_in" "multi_city_leg leg = Inl e" by auto
      with multi_city_leg_error k have "\<not> list_all leg_carries_fields legs_in"
        by (auto simp: list_all_iff)
      with load_legs_Inr [OF legs_in] show ?thesis by simp
    next
      case legs: (Inr legs)
      with r legs_in have "multi_city_links enc rq legs = Inl e"
        by (simp add: build_gf_urls_multi [OF m] split: sum.splits)
      from multi_city_links_error [OF this] k show ?thesis by simp
    qed
  qed
qed

lemma missing_field_error_is_value_error:
  "is_missing_field_error e \<Longrightarrow> is_value_error e"
  by (cases e) simp_all

lemma single_path_missing:
  assumes s: "\<not> is_multi_city rq"
  shows "required_field_missing jl rq \<longleftrightarrow>
         (\<exists>e. build_gf_urls so enc jl rq = Inl e \<and> is_missing_field_error e)"
proof (cases "required_field_missing jl rq")
  case True
  with s show ?thesis
    by (auto simp: build_gf_urls_single required_field_missing_def)
next
  case False
  let ?c = "collect (map (\<lambda>da. build_single_url enc (pair_args rq (fst da) (snd da)))
                            (List.product (csv_to_list (rq_departure_id rq))
                                          (csv_to_list (rq_arrival_id rq))))"
  have "\<not> is_missing_field_error e" if "build_gf_urls so enc jl rq = Inl e" for e
  proof -
    from False s have g: "csv_to_list (rq_departure_id rq) \<noteq> []"
      "csv_to_list (rq_arrival_id rq) \<noteq> []" "truthy (rq_outbound_date rq)"
      "\<not> (rq_type rq = Some ''1'' \<and> \<not> truthy (rq_return_date rq))"
      by (simp_all add: required_field_missing_def)
    have "build_gf_urls so enc jl rq =
        (case ?c of Inl e \<Rightarrow> Inl e
         | Inr ls \<Rightarrow> Inr \<lparr>links = ls,
                     unmatched_global = sorted_set so (serpapi_only_flags rq),
                     serpapi_fallback = fallback_of rq single_path_locals\<rparr>)"
      unfolding build_gf_urls_single [OF s] using g by (simp only: if_False simp_thms)
    with that have "?c = Inl e"
      by (cases ?c) simp_all
    from collect_Inl_mem [OF this] obtain da where
      "build_single_url enc (pair_args rq (fst da) (snd da)) = Inl e" by auto
    then show ?thesis by (rule build_single_url_error)
  qed
  with False show ?thesis by blast
qed

text \<open>
  C6, as the program has it.  Whenever a structurally required field is missing (an empty
  origin or destination list, no outbound date, type \<open>"1"\<close> without return date, or a
  multi-city payload that is not a non-empty JSON array of legs carrying their three
  fields), \<open>build_gf_urls\<close> raises a validation error, a \<open>ValueError\<close>, and returns no
  links; for a multi-city request this is proved of the payloads that are well typed.
  \<open>build_gf_urls\<close> raises one of its missing-field errors only when a required field is
  missing, and for a single-pair request exactly then.
\<close>

theorem missing_field_is_refused:
  "(required_field_missing jl rq \<and> legs_well_typed jl rq \<longrightarrow>
      (\<exists>e'. build_gf_urls so enc jl rq = Inl e' \<and> is_value_error e')) \<and>
   (build_gf_urls so enc jl rq = Inl e \<and> is_missing_field_error e \<longrightarrow>
      required_field_missing jl rq) \<and>
   (\<not> is_multi_city rq \<longrightarrow>
      required_field_missing jl rq =
        (\<exists>e'. build_gf_urls so enc jl rq = Inl e' \<and> is_missing_field_error e'))"
proof (cases "is_multi_city rq")
  case True
  with multi_path_missing(1) [OF True, where jl = jl and so = so and enc = enc]
    multi_path_missing(2) [OF True, where jl = jl and so = so and enc = enc and e = e]
  show ?thesis
    by (auto simp: required_field_missing_def)
next
  case False
  from single_path_missing [OF False, where jl = jl and so = so and enc = enc]
  have iff: "required_field_missing jl rq =
      (\<exists>e'. build_gf_urls so enc jl rq = Inl e' \<and> is_missing_field_error e')" .
  have "\<exists>e'. build_gf_urls so enc jl rq = Inl e' \<and> is_value_error e'"
    if "required_field_missing jl rq"
  proof -
    from that iff obtain e' where
      "build_gf_urls so enc jl rq = Inl e'" "is_missing_field_error e'" by blast
    with missing_field_error_is_value_error show ?thesis by blast
  qed
  moreover have "required_field_missing jl rq"
    if "build_gf_urls so enc jl rq = Inl e \<and> is_missing_field_error e"
    using that iff by blast
  ultimately show ?thesis using iff by blast
qed

theorem missing_field_is_refused_witness:
  "is_multi_city multi_city_request \<and>
   required_field_missing leg_without_date_loads multi_city_request \<and>
   legs_well_typed leg_without_date_loads multi_city_request \<and>
   (\<exists>e. build_gf_urls remdups accepting_encoder leg_without_date_loads multi_city_request =
          Inl e \<and> is_value_error e) \<and>
   build_gf_urls remdups accepting_encoder leg_without_date_loads multi_city_request =
     Inl Leg_Fields_Missing \<and>
   \<not> is_multi_city default_request \<and> required_field_missing three_legs_loads default_request \<and>
   (\<exists>e. build_gf_urls remdups accepting_encoder three_legs_loads default_request = Inl e \<and>
        is_missing_field_error e) \<and>
   build_gf_urls remdups accepting_encoder three_legs_loads default_request = Inl Airports_Required"
proof -
  have mc: "is_multi_city multi_city_request"
    and mm: "required_field_missing leg_without_date_loads multi_city_request"
    and mt: "legs_well_typed leg_without_date_loads multi_city_request"
    and mv: "build_gf_urls remdups accepting_encoder leg_without_date_loads multi_city_request =
      Inl Leg_Fields_Missing"
    by code_simp+
  have s: "\<not> is_multi_city default_request"
    and m: "required_field_missing three_legs_loads default_request"
    and v: "build_gf_urls remdups accepting_encoder three_legs_loads default_request =
      Inl Airports_Required"
    by code_simp+
  from missing_field_is_refused
    [of leg_without_date_loads multi_city_request remdups accepting_encoder Leg_Fields_Missing]
    mm mt
  have a: "\<exists>e. build_gf_urls remdups accepting_encoder leg_without_date_loads
      multi_city_request = Inl e \<and> is_value_error e"
    by blast
  from missing_field_is_refused
    [of three_legs_loads default_request remdups accepting_encoder Airports_Required] s m
  have b: "\<exists>e. build_gf_urls remdups accepting_encoder three_legs_loads default_request = Inl e \<and>
        is_missing_field_error e"
    by blast
  from mc mm mt a mv s m b v show ?thesis by blast
qed

text \<open>
  The claim as stated fails: this request has all its required fields, and is refused
  with the validation error for its place code.
\<close>

theorem validation_error_without_missing_field:
  "\<not> required_field_missing three_legs_loads invalid_code_request \<and>
   build_gf_urls remdups accepting_encoder three_legs_loads invalid_code_request =
     Inl (Invalid_Code ''sydney'') \<and>
   is_value_error (Invalid_Code ''sydney'')"
  by code_simp

text \<open>
  A payload that is not well typed: its only leg is a number, and the request is refused
  with the \<open>AttributeError\<close> of \<open>leg.get\<close>, which is no validation error.
\<close>

lemma number_leg_raises_attribute_error:
  "required_field_missing number_leg_loads multi_city_request \<and>
   \<not> legs_well_typed number_leg_loads multi_city_request \<and>
   build_gf_urls remdups accepting_encoder number_leg_loads multi_city_request =
     Inl Attribute_Error \<and>
   \<not> is_value_error Attribute_Error"
  by code_simp

section \<open>The multi-city fallback\<close>









text \<open>
  Passenger counts that the constructor \<open>Passengers\<close> refuses: with ten adults the
  assertion fails inside the \<open>try\<close> of the multi-city path; it is no \<open>TypeError\<close>, so it
  is not caught and no fallback link is built.
\<close>

lemma passengers_assertion_propagates:
  "is_multi_city ten_adults_request \<and>
   \<not> passengers_ok (request_passengers ten_adults_request) \<and>
   build_gf_urls remdups no_multi_city_encoder three_legs_loads ten_adults_request =
     Inl Assertion_Error"
  by code_simp

section \<open>The fallback mapping\<close>

lemma fst_join_if_list: "fst (join_if_list kv) = fst kv"
  by (cases kv) (simp add: join_if_list_def split: pyval.splits)

lemma map_of_sanitized:
  "distinct (map fst xs) \<Longrightarrow>
   map_of (map join_if_list (filter (\<lambda>kv. fst kv \<in> A \<and> \<not> empty_val (snd kv)) xs)) k =
     (case map_of xs k of
        None \<Rightarrow> None
      | Some v \<Rightarrow> if k \<in> A \<and> \<not> empty_val v then Some (snd (join_if_list (k, v))) else None)"
proof (induction xs)
  case Nil
  then show ?case by simp
next
  case (Cons x xs)
  obtain k' v' where x: "x = (k', v')" by (cases x)
  from Cons.prems have d: "distinct (map fst xs)" and nk: "k' \<notin> fst ` set xs"
    by (simp_all add: x)
  note IH = Cons.IH [OF d]
  show ?case
  proof (cases "k = k'")
    case True
    with nk have none: "map_of xs k = None"
      by (simp add: map_of_eq_None_iff)
    show ?thesis
    proof (cases "k' \<in> A \<and> \<not> empty_val v'")
      case keep: True
      have "fst (join_if_list (k', v')) = k'" by (simp add: fst_join_if_list)
      then obtain w where w: "join_if_list (k', v') = (k', w)"
        by (cases "join_if_list (k', v')") simp
      with keep True show ?thesis by (simp add: x)
    next
      case False
      with True IH none show ?thesis by (auto simp add: x)
    qed
  next
    case False
    have "fst (join_if_list (k', v')) = k'" by (simp add: fst_join_if_list)
    then obtain w where w: "join_if_list (k', v') = (k', w)"
      by (cases "join_if_list (k', v')") simp
    with False IH show ?thesis by (simp add: x)
  qed
qed

lemma map_of_setdefault:
  "map_of (setdefault d k0 v0) k =
     (case map_of d k of Some w \<Rightarrow> Some w | None \<Rightarrow> if k = k0 then Some v0 else None)"
proof (cases "k0 \<in> fst ` set d")
  case True
  then have "map_of d k0 \<noteq> None" by (simp add: map_of_eq_None_iff)
  with True show ?thesis by (auto simp: setdefault_def split: option.splits)
next
  case False
  then have "map_of d k0 = None" by (simp add: map_of_eq_None_iff)
  with False show ?thesis
    by (auto simp: setdefault_def map_add_def split: option.splits)
qed

lemma request_locals_keys:
  "map fst (request_locals rq) =
     [''departure_id'', ''arrival_id'', ''outbound_date'', ''return_date'', ''type'',
      ''travel_class'', ''adults'', ''children'', ''infants_in_seat'', ''infants_on_lap'',
      ''stops'', ''include_airlines'', ''exclude_airlines'', ''outbound_times'',
      ''return_times'', ''hl'', ''gl'', ''currency'', ''deep_search'', ''show_hidden'', ''bags'',
      ''max_price'', ''sort_by'', ''emissions'', ''layover_duration'', ''exclude_conns'',
      ''max_duration'', ''departure_token'', ''booking_token'', ''multi_city_json'']"
  by (simp add: request_locals_def)

lemma locals_distinct:
  "distinct (map fst (request_locals rq @ single_path_locals))"
  "distinct (map fst (request_locals rq @ multi_city_locals))"
  "''engine'' \<notin> fst ` set (request_locals rq @ single_path_locals)"
  "''engine'' \<notin> fst ` set (request_locals rq @ multi_city_locals)"
proof -
  have s: "distinct (map fst (request_locals rq) @ map fst single_path_locals)"
    unfolding request_locals_keys by code_simp
  have m: "distinct (map fst (request_locals rq) @ map fst multi_city_locals)"
    unfolding request_locals_keys by code_simp
  from s show "distinct (map fst (request_locals rq @ single_path_locals))" by simp
  from m show "distinct (map fst (request_locals rq @ multi_city_locals))" by simp
  have "''engine'' \<notin> set (map fst (request_locals rq) @ map fst single_path_locals)"
    unfolding request_locals_keys by code_simp
  then show "''engine'' \<notin> fst ` set (request_locals rq @ single_path_locals)"
    by (simp add: image_Un)
  have "''engine'' \<notin> set (map fst (request_locals rq) @ map fst multi_city_locals)"
    unfolding request_locals_keys by code_simp
  then show "''engine'' \<notin> fst ` set (request_locals rq @ multi_city_locals)"
    by (simp add: image_Un)
qed


lemma opt_not_list:
  "opt_str s \<noteq> VList xs" "opt_int i \<noteq> VList xs" "opt_bool b \<noteq> VList xs"
  by (simp_all add: opt_str_def opt_int_def opt_bool_def split: option.splits)

lemma request_locals_no_list:
  "(k, v) \<in> set (request_locals rq) \<Longrightarrow> v \<noteq> VList xs"
  unfolding request_locals_def
  by (elim set_ConsD [elim_format] disjE) (simp_all add: opt_not_list)

lemma request_locals_allowed:
  "map_of (request_locals rq) k = Some v \<Longrightarrow> k \<in> set allowed \<and> join_if_list (k, v) = (k, v)"
proof -
  assume "map_of (request_locals rq) k = Some v"
  then have mem: "(k, v) \<in> set (request_locals rq)" by (rule map_of_SomeD)
  then have "fst (k, v) \<in> fst ` set (request_locals rq)" by (rule imageI)
  then have k: "k \<in> set (map fst (request_locals rq))" by simp
  have "set (map fst (request_locals rq)) \<subseteq> set allowed"
    unfolding request_locals_keys by code_simp
  with k have "k \<in> set allowed" by blast
  moreover have nl: "\<forall>xs. v \<noteq> VList xs"
    using request_locals_no_list [OF mem] by blast
  then have "join_if_list (k, v) = (k, v)"
    by (cases v) (simp_all add: join_if_list_def)
  ultimately show ?thesis by simp
qed

lemma fallback_lookup:
  assumes x: "extras = single_path_locals \<or> extras = multi_city_locals"
    and l: "map_of (request_locals rq) k = Some v" and ne: "\<not> empty_val v"
  shows "map_of (fallback_of rq extras) k = Some v"
proof -
  let ?L = "request_locals rq @ extras"
  let ?E = "(''engine'', VStr ''google_flights'')"
  from x locals_distinct [of rq] have d: "distinct (map fst ?L)"
    and ne': "''engine'' \<notin> fst ` set ?L" by auto
  from ne' have ds: "dict_set ?L ''engine'' (VStr ''google_flights'') = ?L @ [?E]"
    by (simp add: dict_set_def)
  from d ne' have d': "distinct (map fst (?L @ [?E]))" by (simp add: image_Un)
  from l have lk: "map_of (?L @ [?E]) k = Some v"
    by (simp add: map_add_def)
  from request_locals_allowed [OF l] have al: "k \<in> set allowed"
    and j: "join_if_list (k, v) = (k, v)" by simp_all
  have "map_of (map join_if_list (filter (\<lambda>kv. fst kv \<in> set allowed \<and> \<not> empty_val (snd kv))
      (?L @ [?E]))) k = Some v"
    unfolding map_of_sanitized [OF d'] using lk al ne j by simp
  then show ?thesis
    unfolding fallback_of_def build_serpapi_params_def ds
    by (simp add: map_of_setdefault)
qed


lemma mem_optional_entry: "(e \<in> set (if c then [x] else [])) = (e = x \<and> c)"
  by (cases c) auto

lemma serpapi_only_flags_mem:
  "e \<in> set (serpapi_only_flags rq) \<longleftrightarrow>
     ((e = ''deep_search (SerpApi-only)'' \<and> rq_deep_search rq = Some True) \<or>
      (e = ''show_hidden (SerpApi-only)'' \<and> rq_show_hidden rq = Some True) \<or>
      (e = ''bags (no URL equivalent)'' \<and> rq_bags rq \<noteq> None \<and> rq_bags rq \<noteq> Some 0) \<or>
      (e = ''max_price (no URL equivalent)'' \<and> rq_max_price rq \<noteq> None) \<or>
      (e = ''sort_by (no URL equivalent)'' \<and> rq_sort_by rq \<noteq> None) \<or>
      (e = ''emissions (no URL equivalent)'' \<and> rq_emissions rq \<noteq> None) \<or>
      (e = ''layover_duration (no URL equivalent)'' \<and> truthy (rq_layover_duration rq)) \<or>
      (e = ''exclude_conns (no URL equivalent)'' \<and> truthy (rq_exclude_conns rq)) \<or>
      (e = ''max_duration (no URL equivalent)'' \<and> rq_max_duration rq \<noteq> None) \<or>
      (e = ''departure_token (result-navigation, SerpApi-only)'' \<and> truthy (rq_departure_token rq)) \<or>
      (e = ''booking_token (booking step, SerpApi-only)'' \<and> truthy (rq_booking_token rq)))"
  unfolding serpapi_only_flags_def set_append Un_iff mem_optional_entry
  by (rule refl)

lemma request_locals_lookup:
  "map_of (request_locals rq) ''deep_search'' = Some (opt_bool (rq_deep_search rq))"
  "map_of (request_locals rq) ''show_hidden'' = Some (opt_bool (rq_show_hidden rq))"
  "map_of (request_locals rq) ''bags'' = Some (opt_int (rq_bags rq))"
  "map_of (request_locals rq) ''max_price'' = Some (opt_int (rq_max_price rq))"
  "map_of (request_locals rq) ''sort_by'' = Some (opt_str (rq_sort_by rq))"
  "map_of (request_locals rq) ''emissions'' = Some (opt_str (rq_emissions rq))"
  "map_of (request_locals rq) ''layover_duration'' = Some (opt_str (rq_layover_duration rq))"
  "map_of (request_locals rq) ''exclude_conns'' = Some (opt_str (rq_exclude_conns rq))"
  "map_of (request_locals rq) ''max_duration'' = Some (opt_int (rq_max_duration rq))"
  "map_of (request_locals rq) ''departure_token'' = Some (opt_str (rq_departure_token rq))"
  "map_of (request_locals rq) ''booking_token'' = Some (opt_str (rq_booking_token rq))"
  "map_of (request_locals rq) ''include_airlines'' = Some (opt_str (rq_include_airlines rq))"
  "map_of (request_locals rq) ''exclude_airlines'' = Some (opt_str (rq_exclude_airlines rq))"
  "map_of (request_locals rq) ''multi_city_json'' = Some (opt_str (rq_multi_city_json rq))"
  by (simp_all add: request_locals_def)

lemma field_of_entry_flags:
  "field_of_entry ''deep_search (SerpApi-only)'' = ''deep_search''"
  "field_of_entry ''show_hidden (SerpApi-only)'' = ''show_hidden''"
  "field_of_entry ''bags (no URL equivalent)'' = ''bags''"
  "field_of_entry ''max_price (no URL equivalent)'' = ''max_price''"
  "field_of_entry ''sort_by (no URL equivalent)'' = ''sort_by''"
  "field_of_entry ''emissions (no URL equivalent)'' = ''emissions''"
  "field_of_entry ''layover_duration (no URL equivalent)'' = ''layover_duration''"
  "field_of_entry ''exclude_conns (no URL equivalent)'' = ''exclude_conns''"
  "field_of_entry ''max_duration (no URL equivalent)'' = ''max_duration''"
  "field_of_entry ''departure_token (result-navigation, SerpApi-only)'' = ''departure_token''"
  "field_of_entry ''booking_token (booking step, SerpApi-only)'' = ''booking_token''"
  "field_of_entry (not_supported ''include_airlines'') = ''include_airlines''"
  "field_of_entry (not_supported ''exclude_airlines'') = ''exclude_airlines''"
  by code_simp+

lemma csv_to_list_truthy: "csv_to_list s \<noteq> [] \<Longrightarrow> truthy s"
  by (cases "truthy s") (simp_all add: csv_to_list_def)

lemma multi_city_probes_unmatched:
  "e \<in> set (snd (multi_city_probes enc rq kw)) \<Longrightarrow>
   (e = not_supported ''include_airlines'' \<and> truthy (rq_include_airlines rq)) \<or>
   (e = not_supported ''exclude_airlines'' \<and> truthy (rq_exclude_airlines rq))"
  by (auto simp: multi_city_probes_def multi_try_kw_def Let_def csv_to_list_truthy
      split: if_splits option.splits)

lemma multi_city_links_unmatched:
  assumes "multi_city_links enc rq legs = Inr lu" and "e \<in> set (snd lu)"
  shows "(e = not_supported ''include_airlines'' \<and> truthy (rq_include_airlines rq)) \<or>
         (e = not_supported ''exclude_airlines'' \<and> truthy (rq_exclude_airlines rq)) \<or>
         e = multi_city_unsupported"
proof -
  let ?p = "multi_city_probes enc rq (multi_city_kwargs rq legs)"
  from assms(1) have "snd lu = snd ?p \<or> snd lu = snd ?p @ [multi_city_unsupported]"
    by (auto simp: multi_city_links_def Let_def split: if_splits option.splits sum.splits)
  with assms(2) have "e \<in> set (snd ?p) \<or> e = multi_city_unsupported" by auto
  with multi_city_probes_unmatched [of e enc rq "multi_city_kwargs rq legs"]
  show ?thesis by blast
qed

lemma global_unmatched_entries:
  assumes v: "valid_set_order so" and r: "build_gf_urls so enc jl rq = Inr r"
    and e: "e \<in> set (unmatched_global r)"
  shows "(serpapi_fallback r = fallback_of rq single_path_locals \<or>
          serpapi_fallback r = fallback_of rq multi_city_locals) \<and>
         (e \<in> set (serpapi_only_flags rq) \<or>
          (e = not_supported ''include_airlines'' \<and> truthy (rq_include_airlines rq)) \<or>
          (e = not_supported ''exclude_airlines'' \<and> truthy (rq_exclude_airlines rq)) \<or>
          (e = multi_city_unsupported \<and> truthy (rq_multi_city_json rq)))"
proof (cases "is_multi_city rq")
  case False
  let ?c = "collect (map (\<lambda>da. build_single_url enc (pair_args rq (fst da) (snd da)))
             (List.product (csv_to_list (rq_departure_id rq)) (csv_to_list (rq_arrival_id rq))))"
  from r obtain ls where "r = \<lparr>links = ls,
      unmatched_global = sorted_set so (serpapi_only_flags rq),
      serpapi_fallback = fallback_of rq single_path_locals\<rparr>"
    unfolding build_gf_urls_single [OF False]
    by (cases ?c) (auto split: if_splits)
  with e v show ?thesis by (simp add: sorted_set_props(3))
next
  case True
  from r obtain legs_in where ll: "load_legs jl (rq_multi_city_json rq) = Inr legs_in"
    unfolding build_gf_urls_multi [OF True]
    by (cases "load_legs jl (rq_multi_city_json rq)") simp_all
  from r ll obtain legs where c: "collect (map multi_city_leg legs_in) = Inr legs"
    unfolding build_gf_urls_multi [OF True]
    by (cases "collect (map multi_city_leg legs_in)") simp_all
  from r ll c obtain lu where ml: "multi_city_links enc rq legs = Inr lu"
    and rr: "r = \<lparr>links = fst lu,
      unmatched_global = sorted_set so (snd lu @ serpapi_only_flags rq),
      serpapi_fallback = fallback_of rq multi_city_locals\<rparr>"
    unfolding build_gf_urls_multi [OF True]
    by (cases "multi_city_links enc rq legs") auto
  from load_legs_Inr [OF ll] have t: "truthy (rq_multi_city_json rq)" by simp
  from e rr v have "e \<in> set (snd lu) \<or> e \<in> set (serpapi_only_flags rq)"
    by (auto simp: sorted_set_props(3))
  with multi_city_links_unmatched [OF ml, of e] t rr show ?thesis by auto
qed


lemma opt_not_none:
  "s \<noteq> None \<Longrightarrow> opt_str s \<noteq> VNone"
  "truthy s \<Longrightarrow> opt_str s \<noteq> VNone"
  "i \<noteq> None \<Longrightarrow> opt_int i \<noteq> VNone"
  "b = Some True \<Longrightarrow> opt_bool b \<noteq> VNone"
  by (auto simp: opt_str_def opt_int_def opt_bool_def truthy_def split: option.splits)

lemma flag_entry_lookup:
  "e \<in> set (serpapi_only_flags rq) \<Longrightarrow>
   \<exists>v. map_of (request_locals rq) (field_of_entry e) = Some v \<and> v \<noteq> VNone"
  unfolding serpapi_only_flags_mem
  by (elim disjE conjE)
     (simp_all add: field_of_entry_flags request_locals_lookup opt_not_none)

lemma entry_in_fallback:
  assumes x: "fb = fallback_of rq single_path_locals \<or> fb = fallback_of rq multi_city_locals"
    and l: "map_of (request_locals rq) k = Some v" and nn: "v \<noteq> VNone"
  shows "v \<noteq> VStr [] \<longrightarrow> map_of fb k = Some v"
proof
  assume ns: "v \<noteq> VStr []"
  from request_locals_no_list [OF map_of_SomeD [OF l]] have "v \<noteq> VList []" .
  with nn ns have ne: "\<not> empty_val v" by (simp add: empty_val_def)
  from x show "map_of fb k = Some v"
    by (auto intro: fallback_lookup [OF _ l ne])
qed

lemma multi_city_unsupported_distinct:
  "multi_city_unsupported \<notin> set (serpapi_only_flags rq)"
  "multi_city_unsupported \<noteq> not_supported ''include_airlines''"
  "multi_city_unsupported \<noteq> not_supported ''exclude_airlines''"
  unfolding serpapi_only_flags_mem
  by (simp_all add: multi_city_unsupported_def not_supported_def)

text \<open>
  C7, as the program has it: the field of every entry of the global unmatched list was
  supplied by the caller, and it is in the fallback mapping with its value as supplied,
  unless that value is the empty string (which \<open>build_serpapi_params\<close> leaves out, while
  \<open>sort_by\<close> and \<open>emissions\<close> are reported as soon as they are not \<open>None\<close>).  The entry
  for an unsupported multi-city trip stands for the field \<open>multi_city_json\<close>.
\<close>

theorem unmatched_fields_in_fallback:
  "valid_set_order so \<and> build_gf_urls so enc jl rq = Inr r \<and> e \<in> set (unmatched_global r) \<longrightarrow>
     (e = multi_city_unsupported \<longrightarrow>
        truthy (rq_multi_city_json rq) \<and>
        map_of (serpapi_fallback r) ''multi_city_json'' = Some (VStr (the (rq_multi_city_json rq)))) \<and>
     (e \<noteq> multi_city_unsupported \<longrightarrow>
        (\<exists>v. map_of (request_locals rq) (field_of_entry e) = Some v \<and> v \<noteq> VNone \<and>
             (v \<noteq> VStr [] \<longrightarrow> map_of (serpapi_fallback r) (field_of_entry e) = Some v)))"
proof (intro impI conjI)
  assume h: "valid_set_order so \<and> build_gf_urls so enc jl rq = Inr r \<and>
    e \<in> set (unmatched_global r)"
  assume mc: "e = multi_city_unsupported"
  from h global_unmatched_entries [of so enc jl rq r e]
  have x: "serpapi_fallback r = fallback_of rq single_path_locals \<or>
        serpapi_fallback r = fallback_of rq multi_city_locals"
    and t: "truthy (rq_multi_city_json rq)"
    using mc multi_city_unsupported_distinct by auto
  from t obtain s where s: "rq_multi_city_json rq = Some s" "s \<noteq> []"
    by (auto simp: truthy_def split: option.splits)
  have "map_of (request_locals rq) ''multi_city_json'' = Some (VStr s)"
    by (simp add: request_locals_lookup s opt_str_def)
  from entry_in_fallback [OF x this] s
  have "map_of (serpapi_fallback r) ''multi_city_json'' = Some (VStr s)" by simp
  with t s show "truthy (rq_multi_city_json rq)"
    and "map_of (serpapi_fallback r) ''multi_city_json'' =
      Some (VStr (the (rq_multi_city_json rq)))"
    by simp_all
next
  assume h: "valid_set_order so \<and> build_gf_urls so enc jl rq = Inr r \<and>
    e \<in> set (unmatched_global r)"
  assume nmc: "e \<noteq> multi_city_unsupported"
  from h global_unmatched_entries [of so enc jl rq r e]
  have x: "serpapi_fallback r = fallback_of rq single_path_locals \<or>
        serpapi_fallback r = fallback_of rq multi_city_locals"
    and cases: "e \<in> set (serpapi_only_flags rq) \<or>
        (e = not_supported ''include_airlines'' \<and> truthy (rq_include_airlines rq)) \<or>
        (e = not_supported ''exclude_airlines'' \<and> truthy (rq_exclude_airlines rq))"
    using nmc by auto
  from cases have "\<exists>v. map_of (request_locals rq) (field_of_entry e) = Some v \<and> v \<noteq> VNone"
  proof (elim disjE conjE)
    assume "e \<in> set (serpapi_only_flags rq)"
    then show ?thesis by (rule flag_entry_lookup)
  next
    assume "e = not_supported ''include_airlines''" "truthy (rq_include_airlines rq)"
    then show ?thesis
      by (simp add: field_of_entry_flags request_locals_lookup opt_not_none)
  next
    assume "e = not_supported ''exclude_airlines''" "truthy (rq_exclude_airlines rq)"
    then show ?thesis
      by (simp add: field_of_entry_flags request_locals_lookup opt_not_none)
  qed
  then obtain v where l: "map_of (request_locals rq) (field_of_entry e) = Some v"
    and nn: "v \<noteq> VNone" by blast
  from entry_in_fallback [OF x l nn] l nn
  show "\<exists>v. map_of (request_locals rq) (field_of_entry e) = Some v \<and> v \<noteq> VNone \<and>
      (v \<noteq> VStr [] \<longrightarrow> map_of (serpapi_fallback r) (field_of_entry e) = Some v)"
    by blast
qed


theorem unmatched_fields_in_fallback_witness:
  "valid_set_order remdups \<and>
   (\<exists>r. build_gf_urls remdups accepting_encoder three_legs_loads advanced_request = Inr r \<and>
        ''max_price (no URL equivalent)'' \<in> set (unmatched_global r) \<and>
        map_of (serpapi_fallback r) ''max_price'' = Some (VInt 500))"
proof -
  have v: "valid_set_order remdups"
    by (simp add: valid_set_order_def)
  have "case build_gf_urls remdups accepting_encoder three_legs_loads advanced_request of
          Inl e \<Rightarrow> False
        | Inr r \<Rightarrow> ''max_price (no URL equivalent)'' \<in> set (unmatched_global r)"
    by code_simp
  then obtain r where
    r: "build_gf_urls remdups accepting_encoder three_legs_loads advanced_request = Inr r"
    and e: "''max_price (no URL equivalent)'' \<in> set (unmatched_global r)"
    by (cases "build_gf_urls remdups accepting_encoder three_legs_loads advanced_request")
       simp_all
  have ne: "''max_price (no URL equivalent)'' \<noteq> multi_city_unsupported"
    by code_simp
  have f: "field_of_entry ''max_price (no URL equivalent)'' = ''max_price''"
    by code_simp
  have l: "map_of (request_locals advanced_request) ''max_price'' = Some (VInt 500)"
    by code_simp
  from unmatched_fields_in_fallback
    [of remdups accepting_encoder three_legs_loads advanced_request r
        "''max_price (no URL equivalent)''"] v r e ne
  have "\<exists>v. map_of (request_locals advanced_request) ''max_price'' = Some v \<and> v \<noteq> VNone \<and>
      (v \<noteq> VStr [] \<longrightarrow> map_of (serpapi_fallback r) ''max_price'' = Some v)"
    by (simp only: f simp_thms)
  with l have "map_of (serpapi_fallback r) ''max_price'' = Some (VInt 500)"
    by auto
  with v r e show ?thesis by blast
qed

text \<open>
  The claim as stated fails: an empty \<open>sort_by\<close> is reported in the global unmatched
  list and is absent from the fallback mapping.
\<close>

theorem empty_sort_by_not_in_fallback:
  "build_gf_urls remdups accepting_encoder three_legs_loads empty_sort_request =
     Inr \<lparr>links =
            [\<lparr>url = ''https://www.google.com/travel/flights?tfs=SYDMEL&hl=en&gl=US&curr=USD'',
              coverage = \<lparr>encoded = [''tfs'', ''hl'', ''gl'', ''currency''],
                          approximated = [], unmatched = []\<rparr>\<rparr>],
          unmatched_global = [''sort_by (no URL equivalent)''],
          serpapi_fallback =
            [(''departure_id'', VStr ''SYD''), (''arrival_id'', VStr ''MEL''),
             (''outbound_date'', VStr ''2025-08-15''), (''adults'', VInt 1),
             (''children'', VInt 0), (''infants_in_seat'', VInt 0),
             (''infants_on_lap'', VInt 0), (''hl'', VStr ''en''), (''gl'', VStr ''US''),
             (''currency'', VStr ''USD''), (''engine'', VStr ''google_flights'')]\<rparr> \<and>
   rq_sort_by empty_sort_request = Some [] \<and>
   map_of (fallback_of empty_sort_request single_path_locals) ''sort_by'' = None"
  by code_simp

section \<open>The coverage of one link\<close>

lemma try_kw_snd:
  "snd (try_kw enc key put st) =
     \<lparr>encoded = encoded (snd st) @ optional_entry (enc (put (fst st)) \<noteq> None) key,
      approximated = approximated (snd st),
      unmatched = unmatched (snd st) @
        optional_entry (\<not> enc (put (fst st)) \<noteq> None) (not_supported key)\<rparr>"
  by (simp add: try_kw_def optional_entry_def add_encoded_def add_unmatched_def
      split: option.splits)

lemma optional_entry_False: "optional_entry False x = []"
  by (simp add: optional_entry_def)

lemma airline_steps_snd:
  "\<exists>inc exc. snd (airline_steps enc i e st) =
     \<lparr>encoded = encoded (snd st) @ optional_entry (i \<noteq> [] \<and> inc) ''include_airlines'' @
        optional_entry (e \<noteq> [] \<and> exc) ''exclude_airlines'',
      approximated = approximated (snd st),
      unmatched = unmatched (snd st) @
        optional_entry (i \<noteq> [] \<and> \<not> inc) (not_supported ''include_airlines'') @
        optional_entry (e \<noteq> [] \<and> \<not> exc) (not_supported ''exclude_airlines'')\<rparr>"
proof -
  let ?p1 = "\<lambda>k. k\<lparr>kw_include_airlines := Some i\<rparr>"
  let ?p2 = "\<lambda>k. k\<lparr>kw_exclude_airlines := Some e\<rparr>"
  let ?st1 = "if i \<noteq> [] then try_kw enc ''include_airlines'' ?p1 st else st"
  let ?inc = "enc (?p1 (fst st)) \<noteq> None"
  let ?exc = "enc (?p2 (fst ?st1)) \<noteq> None"
  have s1: "snd ?st1 =
     \<lparr>encoded = encoded (snd st) @ optional_entry (i \<noteq> [] \<and> ?inc) ''include_airlines'',
      approximated = approximated (snd st),
      unmatched = unmatched (snd st) @
        optional_entry (i \<noteq> [] \<and> \<not> ?inc) (not_supported ''include_airlines'')\<rparr>"
    by (cases "i = []") (simp_all add: try_kw_snd optional_entry_False)
  have "snd (airline_steps enc i e st) =
     \<lparr>encoded = encoded (snd ?st1) @ optional_entry (e \<noteq> [] \<and> ?exc) ''exclude_airlines'',
      approximated = approximated (snd ?st1),
      unmatched = unmatched (snd ?st1) @
        optional_entry (e \<noteq> [] \<and> \<not> ?exc) (not_supported ''exclude_airlines'')\<rparr>"
    unfolding airline_steps_def Let_def
    by (cases "e = []") (simp_all add: try_kw_snd optional_entry_False)
  then show ?thesis
    unfolding s1 by (intro exI [of _ ?inc] exI [of _ ?exc]) simp
qed


lemma window_steps_snd:
  "\<exists>dep arr. snd (window_steps enc d0 a0 st) =
     \<lparr>encoded = encoded (snd st) @ optional_entry (d0 \<noteq> None \<and> dep) ''dep_time_window'' @
        optional_entry (a0 \<noteq> None \<and> arr) ''arr_time_window'',
      approximated = approximated (snd st),
      unmatched = unmatched (snd st) @
        optional_entry (d0 \<noteq> None \<and> \<not> dep) (not_supported ''dep_time_window'') @
        optional_entry (a0 \<noteq> None \<and> \<not> arr) (not_supported ''arr_time_window'')\<rparr>"
proof -
  let ?p1 = "\<lambda>k. k\<lparr>kw_dep_time_window := d0\<rparr>"
  let ?p2 = "\<lambda>k. k\<lparr>kw_arr_time_window := a0\<rparr>"
  let ?st1 = "if d0 \<noteq> None then try_kw enc ''dep_time_window'' ?p1 st else st"
  let ?dep = "enc (?p1 (fst st)) \<noteq> None"
  let ?arr = "enc (?p2 (fst ?st1)) \<noteq> None"
  have s1: "snd ?st1 =
     \<lparr>encoded = encoded (snd st) @ optional_entry (d0 \<noteq> None \<and> ?dep) ''dep_time_window'',
      approximated = approximated (snd st),
      unmatched = unmatched (snd st) @
        optional_entry (d0 \<noteq> None \<and> \<not> ?dep) (not_supported ''dep_time_window'')\<rparr>"
    by (cases "d0 = None") (simp_all add: try_kw_snd optional_entry_False)
  have "snd (window_steps enc d0 a0 st) =
     \<lparr>encoded = encoded (snd ?st1) @ optional_entry (a0 \<noteq> None \<and> ?arr) ''arr_time_window'',
      approximated = approximated (snd ?st1),
      unmatched = unmatched (snd ?st1) @
        optional_entry (a0 \<noteq> None \<and> \<not> ?arr) (not_supported ''arr_time_window'')\<rparr>"
    unfolding window_steps_def Let_def
    by (cases "a0 = None") (simp_all add: try_kw_snd optional_entry_False)
  then show ?thesis
    unfolding s1 by (intro exI [of _ ?dep] exI [of _ ?arr]) simp
qed

lemma return_window_step_snd:
  "\<exists>ret. snd (return_window_step enc rt d0 a0 d1 a1 st) =
     \<lparr>encoded = encoded (snd st) @
        optional_entry ((rt \<and> (d1, a1) \<noteq> (None, None)) \<and> ret) ''dep_time_windows/arr_time_windows'',
      approximated = approximated (snd st) @
        optional_entry ((rt \<and> (d1, a1) \<noteq> (None, None)) \<and> \<not> ret) return_times_approximated,
      unmatched = unmatched (snd st)\<rparr>"
proof -
  let ?probe = "(fst st)\<lparr>kw_dep_time_windows := Some [d0, d1],
                          kw_arr_time_windows := Some [a0, a1]\<rparr>"
  show ?thesis
    by (intro exI [of _ "enc ?probe \<noteq> None"])
       (auto simp: return_window_step_def Let_def optional_entry_def add_encoded_def
          add_approximated_def split: option.splits)
qed

lemma cabin_step_snd:
  "snd (cabin_step (sa_travel_class a) empty_coverage) =
     \<lparr>encoded = optional_entry (known_cabin a) ''travel_class'',
      approximated = [],
      unmatched = optional_entry (truthy (sa_travel_class a) \<and> \<not> known_cabin a)
        (''travel_class ('' @ the (sa_travel_class a) @ '')'')\<rparr>"
  by (simp add: cabin_step_def known_cabin_def empty_coverage_def add_encoded_def
      add_unmatched_def optional_entry_def)

lemma stops_step_snd:
  "snd (stops_step (sa_stops a) cov) =
     \<lparr>encoded = encoded cov @ optional_entry (known_stops a) ''stops'',
      approximated = approximated cov,
      unmatched = unmatched cov @ optional_entry (sa_stops a \<noteq> None \<and> \<not> known_stops a)
        (''stops ('' @ the (sa_stops a) @ '')'')\<rparr>"
  by (simp add: stops_step_def known_stops_def add_encoded_def add_unmatched_def
      optional_entry_def split: option.splits)

lemma single_tfs_coverage:
  "\<exists>inc exc dep arr ret. snd (single_tfs enc a) = coverage_table a inc exc dep arr ret"
proof -
  let ?legs = "fst (trip_legs a)" and ?rt = "snd (trip_legs a)"
  let ?pax = "clamped_passengers a"
  let ?cabin = "cabin_step (sa_travel_class a) empty_coverage"
  let ?stops = "stops_step (sa_stops a) (snd ?cabin)"
  let ?out = "parse_time_window (sa_outbound_times a)"
  let ?ret = "if ?rt then parse_time_window (sa_return_times a) else (None, None)"
  let ?st0 = "(base_kwargs ?legs ?rt ?pax (fst ?cabin) (fst ?stops), snd ?stops)"
  let ?st1 = "airline_steps enc (sa_include_airlines a) (sa_exclude_airlines a) ?st0"
  let ?st2 = "window_steps enc (fst ?out) (snd ?out) ?st1"
  let ?st3 = "return_window_step enc ?rt (fst ?out) (snd ?out) (fst ?ret) (snd ?ret) ?st2"
  have def: "single_tfs enc a = ?st3"
    by (simp add: single_tfs_def Let_def)
  have rw: "(?rt \<and> (fst ?ret, snd ?ret) \<noteq> (None, None)) = return_windows a"
    by (auto simp: return_windows_def)
  obtain inc exc where s1: "snd ?st1 =
     \<lparr>encoded = encoded (snd ?st0) @
        optional_entry (sa_include_airlines a \<noteq> [] \<and> inc) ''include_airlines'' @
        optional_entry (sa_exclude_airlines a \<noteq> [] \<and> exc) ''exclude_airlines'',
      approximated = approximated (snd ?st0),
      unmatched = unmatched (snd ?st0) @
        optional_entry (sa_include_airlines a \<noteq> [] \<and> \<not> inc) (not_supported ''include_airlines'') @
        optional_entry (sa_exclude_airlines a \<noteq> [] \<and> \<not> exc) (not_supported ''exclude_airlines'')\<rparr>"
    using airline_steps_snd [of enc "sa_include_airlines a" "sa_exclude_airlines a" ?st0]
    by blast
  obtain dep arr where s2: "snd ?st2 =
     \<lparr>encoded = encoded (snd ?st1) @
        optional_entry (fst ?out \<noteq> None \<and> dep) ''dep_time_window'' @
        optional_entry (snd ?out \<noteq> None \<and> arr) ''arr_time_window'',
      approximated = approximated (snd ?st1),
      unmatched = unmatched (snd ?st1) @
        optional_entry (fst ?out \<noteq> None \<and> \<not> dep) (not_supported ''dep_time_window'') @
        optional_entry (snd ?out \<noteq> None \<and> \<not> arr) (not_supported ''arr_time_window'')\<rparr>"
    using window_steps_snd [of enc "fst ?out" "snd ?out" ?st1] by blast
  obtain ret where s3: "snd ?st3 =
     \<lparr>encoded = encoded (snd ?st2) @
        optional_entry (return_windows a \<and> ret) ''dep_time_windows/arr_time_windows'',
      approximated = approximated (snd ?st2) @
        optional_entry (return_windows a \<and> \<not> ret) return_times_approximated,
      unmatched = unmatched (snd ?st2)\<rparr>"
    using return_window_step_snd [of enc ?rt "fst ?out" "snd ?out" "fst ?ret" "snd ?ret" ?st2]
    unfolding rw by blast
  have s0: "snd ?st0 =
     \<lparr>encoded = optional_entry (known_cabin a) ''travel_class'' @
        optional_entry (known_stops a) ''stops'',
      approximated = [],
      unmatched = optional_entry (truthy (sa_travel_class a) \<and> \<not> known_cabin a)
          (''travel_class ('' @ the (sa_travel_class a) @ '')'') @
        optional_entry (sa_stops a \<noteq> None \<and> \<not> known_stops a)
          (''stops ('' @ the (sa_stops a) @ '')'')\<rparr>"
    by (simp add: stops_step_snd cabin_step_snd)
  have "snd (single_tfs enc a) = coverage_table a inc exc dep arr ret"
    unfolding def s3 s2 s1 s0 coverage_table_def by simp
  then show ?thesis by blast
qed


lemma optional_entry_mem: "(e \<in> set (optional_entry c x)) = (e = x \<and> c)"
  by (cases c) (auto simp: optional_entry_def)

lemma build_single_url_coverage:
  assumes "build_single_url enc a = Inr l"
  shows "\<exists>inc exc dep arr ret.
     encoded (coverage l) =
       encoded (coverage_table a inc exc dep arr ret) @ [''tfs'', ''hl'', ''gl'', ''currency''] \<and>
     approximated (coverage l) = approximated (coverage_table a inc exc dep arr ret) \<and>
     unmatched (coverage l) = unmatched (coverage_table a inc exc dep arr ret)"
proof -
  from assms have "coverage l = (snd (single_tfs enc a))
      \<lparr>encoded := encoded (snd (single_tfs enc a)) @ [''tfs'', ''hl'', ''gl'', ''currency'']\<rparr>"
    by (auto simp: build_single_url_def split: if_splits option.splits)
  moreover obtain inc exc dep arr ret where
    "snd (single_tfs enc a) = coverage_table a inc exc dep arr ret"
    using single_tfs_coverage [of enc a] by blast
  ultimately have "coverage l = (coverage_table a inc exc dep arr ret)
      \<lparr>encoded := encoded (coverage_table a inc exc dep arr ret) @
         [''tfs'', ''hl'', ''gl'', ''currency'']\<rparr>"
    by simp
  then have "encoded (coverage l) =
       encoded (coverage_table a inc exc dep arr ret) @ [''tfs'', ''hl'', ''gl'', ''currency''] \<and>
     approximated (coverage l) = approximated (coverage_table a inc exc dep arr ret) \<and>
     unmatched (coverage l) = unmatched (coverage_table a inc exc dep arr ret)"
    by simp
  then show ?thesis by blast
qed


lemma table_encoded_shape:
  "e \<in> set (encoded (coverage_table a inc exc dep arr ret) @ [''tfs'', ''hl'', ''gl'', ''currency''])
   \<Longrightarrow> CHR '' '' \<notin> set e"
  unfolding coverage_table_def coverage.simps set_append Un_iff optional_entry_mem
  by (elim disjE conjE) auto

lemma table_unmatched_shape:
  "e \<in> set (unmatched (coverage_table a inc exc dep arr ret))
   \<Longrightarrow> CHR '' '' \<in> set e \<and> e \<noteq> return_times_approximated"
  unfolding coverage_table_def coverage.simps set_append Un_iff optional_entry_mem
  by (elim disjE conjE) (simp_all add: not_supported_def return_times_approximated_def)

lemma table_approximated_shape:
  "e \<in> set (approximated (coverage_table a inc exc dep arr ret))
   \<Longrightarrow> CHR '' '' \<in> set e \<and> e = return_times_approximated"
  unfolding coverage_table_def coverage.simps optional_entry_mem
  by (simp add: return_times_approximated_def)

lemma table_disjoint:
  "set (encoded (coverage_table a inc exc dep arr ret) @ [''tfs'', ''hl'', ''gl'', ''currency'']) \<inter>
     set (approximated (coverage_table a inc exc dep arr ret)) = {}"
  "set (encoded (coverage_table a inc exc dep arr ret) @ [''tfs'', ''hl'', ''gl'', ''currency'']) \<inter>
     set (unmatched (coverage_table a inc exc dep arr ret)) = {}"
  "set (approximated (coverage_table a inc exc dep arr ret)) \<inter>
     set (unmatched (coverage_table a inc exc dep arr ret)) = {}"
  using table_encoded_shape [of _ a inc exc dep arr ret]
    table_unmatched_shape [of _ a inc exc dep arr ret]
    table_approximated_shape [of _ a inc exc dep arr ret]
  by blast+


lemma table_classified:
  fixes a inc exc dep arr ret
  defines "E \<equiv> set (encoded (coverage_table a inc exc dep arr ret) @
                      [''tfs'', ''hl'', ''gl'', ''currency''])"
    and "U \<equiv> set (unmatched (coverage_table a inc exc dep arr ret))"
    and "A \<equiv> set (approximated (coverage_table a inc exc dep arr ret))"
  shows "set [''tfs'', ''hl'', ''gl'', ''currency''] \<subseteq> E"
    and "truthy (sa_travel_class a) \<longrightarrow>
           (''travel_class'' \<in> E) \<noteq> (''travel_class ('' @ the (sa_travel_class a) @ '')'' \<in> U)"
    and "sa_stops a \<noteq> None \<longrightarrow>
           (''stops'' \<in> E) \<noteq> (''stops ('' @ the (sa_stops a) @ '')'' \<in> U)"
    and "sa_include_airlines a \<noteq> [] \<longrightarrow>
           (''include_airlines'' \<in> E) \<noteq> (not_supported ''include_airlines'' \<in> U)"
    and "sa_exclude_airlines a \<noteq> [] \<longrightarrow>
           (''exclude_airlines'' \<in> E) \<noteq> (not_supported ''exclude_airlines'' \<in> U)"
    and "fst (parse_time_window (sa_outbound_times a)) \<noteq> None \<longrightarrow>
           (''dep_time_window'' \<in> E) \<noteq> (not_supported ''dep_time_window'' \<in> U)"
    and "snd (parse_time_window (sa_outbound_times a)) \<noteq> None \<longrightarrow>
           (''arr_time_window'' \<in> E) \<noteq> (not_supported ''arr_time_window'' \<in> U)"
    and "return_windows a \<longrightarrow>
           (''dep_time_windows/arr_time_windows'' \<in> E) \<noteq> (return_times_approximated \<in> A)"
  unfolding E_def U_def A_def coverage_table_def coverage.simps set_append Un_iff
    optional_entry_mem
  by (simp_all add: not_supported_def return_times_approximated_def)

lemma multi_city_links_coverage:
  assumes "multi_city_links enc rq legs = Inr lu" and "l \<in> set (fst lu)"
  shows "coverage l = \<lparr>encoded = [''tfs'', ''hl'', ''gl'', ''currency''],
                        approximated = [], unmatched = []\<rparr> \<or>
         (\<exists>a. build_single_url enc a = Inr l)"
proof (cases "enc (fst (multi_city_probes enc rq (multi_city_kwargs rq legs)))")
  case (Some tfs)
  with assms show ?thesis
    by (auto simp: multi_city_links_def Let_def split: if_splits)
next
  case None
  let ?f = "\<lambda>i. build_single_url enc (fallback_args rq (legs ! i))"
  from assms(1) None have "collect (map ?f [0 ..< length legs - 1]) = Inr (fst lu)"
    by (cases "collect (map ?f [0 ..< length legs - 1])")
       (auto simp: multi_city_links_def Let_def split: if_splits)
  then have "map ?f [0 ..< length legs - 1] = map Inr (fst lu)"
    by (simp only: collect_Inr_iff)
  then have "Inr ` set (fst lu) = ?f ` set [0 ..< length legs - 1]"
    by (metis list.set_map)
  with assms(2) obtain i where "?f i = Inr l" by (metis (no_types, lifting) imageE imageI)
  then show ?thesis by blast
qed

lemma links_from_single_or_multi:
  assumes r: "build_gf_urls so enc jl rq = Inr r" and l: "l \<in> set (links r)"
  shows "coverage l = \<lparr>encoded = [''tfs'', ''hl'', ''gl'', ''currency''],
                        approximated = [], unmatched = []\<rparr> \<or>
         (\<exists>a. build_single_url enc a = Inr l)"
proof (cases "is_multi_city rq")
  case False
  let ?f = "\<lambda>da. build_single_url enc (pair_args rq (fst da) (snd da))"
  from single_path_links [OF False r]
  have "Inr ` set (links r) = ?f ` set (List.product (csv_to_list (rq_departure_id rq))
      (csv_to_list (rq_arrival_id rq)))"
    by (metis list.set_map)
  with l obtain da where "?f da = Inr l" by (metis (no_types, lifting) imageE imageI)
  then show ?thesis by blast
next
  case True
  from r obtain legs_in where ll: "load_legs jl (rq_multi_city_json rq) = Inr legs_in"
    unfolding build_gf_urls_multi [OF True]
    by (cases "load_legs jl (rq_multi_city_json rq)") simp_all
  from r ll obtain legs where c: "collect (map multi_city_leg legs_in) = Inr legs"
    unfolding build_gf_urls_multi [OF True]
    by (cases "collect (map multi_city_leg legs_in)") simp_all
  from r ll c obtain lu where ml: "multi_city_links enc rq legs = Inr lu"
    and rr: "links r = fst lu"
    unfolding build_gf_urls_multi [OF True]
    by (cases "multi_city_links enc rq legs") auto
  from multi_city_links_coverage [OF ml] l rr show ?thesis by simp
qed


lemma single_link_classified:
  assumes "build_single_url enc a = Inr l"
  shows "pairwise_disjoint (coverage l) \<and>
      set [''tfs'', ''hl'', ''gl'', ''currency''] \<subseteq> set (encoded (coverage l)) \<and>
      (truthy (sa_travel_class a) \<longrightarrow>
         (''travel_class'' \<in> set (encoded (coverage l))) \<noteq>
         (''travel_class ('' @ the (sa_travel_class a) @ '')'' \<in> set (unmatched (coverage l)))) \<and>
      (sa_stops a \<noteq> None \<longrightarrow>
         (''stops'' \<in> set (encoded (coverage l))) \<noteq>
         (''stops ('' @ the (sa_stops a) @ '')'' \<in> set (unmatched (coverage l)))) \<and>
      (sa_include_airlines a \<noteq> [] \<longrightarrow>
         (''include_airlines'' \<in> set (encoded (coverage l))) \<noteq>
         (not_supported ''include_airlines'' \<in> set (unmatched (coverage l)))) \<and>
      (sa_exclude_airlines a \<noteq> [] \<longrightarrow>
         (''exclude_airlines'' \<in> set (encoded (coverage l))) \<noteq>
         (not_supported ''exclude_airlines'' \<in> set (unmatched (coverage l)))) \<and>
      (fst (parse_time_window (sa_outbound_times a)) \<noteq> None \<longrightarrow>
         (''dep_time_window'' \<in> set (encoded (coverage l))) \<noteq>
         (not_supported ''dep_time_window'' \<in> set (unmatched (coverage l)))) \<and>
      (snd (parse_time_window (sa_outbound_times a)) \<noteq> None \<longrightarrow>
         (''arr_time_window'' \<in> set (encoded (coverage l))) \<noteq>
         (not_supported ''arr_time_window'' \<in> set (unmatched (coverage l)))) \<and>
      (return_windows a \<longrightarrow>
         (''dep_time_windows/arr_time_windows'' \<in> set (encoded (coverage l))) \<noteq>
         (return_times_approximated \<in> set (approximated (coverage l))))"
proof -
  from build_single_url_coverage [OF assms] obtain inc exc dep arr ret where
    e: "encoded (coverage l) =
       encoded (coverage_table a inc exc dep arr ret) @ [''tfs'', ''hl'', ''gl'', ''currency'']"
    and ap: "approximated (coverage l) = approximated (coverage_table a inc exc dep arr ret)"
    and u: "unmatched (coverage l) = unmatched (coverage_table a inc exc dep arr ret)"
    by blast
  have d: "pairwise_disjoint (coverage l)"
    unfolding pairwise_disjoint_def e ap u
    using table_disjoint [of a inc exc dep arr ret] by (intro conjI)
  from d table_classified [of a inc exc dep arr ret] show ?thesis
    unfolding e ap u by (intro conjI)
qed

text \<open>
  C3, as the program has it: the three coverage lists of every generated link are
  pairwise disjoint.  In a link built by \<open>_build_single_url\<close>, \<open>tfs\<close>, \<open>hl\<close>, \<open>gl\<close>
  and \<open>currency\<close> are encoded, and each of these is recorded in exactly one list, under
  the entry the program uses for it: a cabin class that is not empty, a stop cap, a
  non-empty list of included or of excluded airlines, a departure and an arrival window
  parsed from \<open>outbound_times\<close>, and on a round trip the windows parsed from
  \<open>return_times\<close>.  Nothing is promised for the other parameters.
\<close>

theorem coverage_disjoint_and_classified:
  "(build_gf_urls so enc jl rq = Inr r \<and> l' \<in> set (links r) \<longrightarrow>
      pairwise_disjoint (coverage l')) \<and>
   (build_single_url enc a = Inr l \<longrightarrow>
      pairwise_disjoint (coverage l) \<and>
      set [''tfs'', ''hl'', ''gl'', ''currency''] \<subseteq> set (encoded (coverage l)) \<and>
      (truthy (sa_travel_class a) \<longrightarrow>
         (''travel_class'' \<in> set (encoded (coverage l))) \<noteq>
         (''travel_class ('' @ the (sa_travel_class a) @ '')'' \<in> set (unmatched (coverage l)))) \<and>
      (sa_stops a \<noteq> None \<longrightarrow>
         (''stops'' \<in> set (encoded (coverage l))) \<noteq>
         (''stops ('' @ the (sa_stops a) @ '')'' \<in> set (unmatched (coverage l)))) \<and>
      (sa_include_airlines a \<noteq> [] \<longrightarrow>
         (''include_airlines'' \<in> set (encoded (coverage l))) \<noteq>
         (not_supported ''include_airlines'' \<in> set (unmatched (coverage l)))) \<and>
      (sa_exclude_airlines a \<noteq> [] \<longrightarrow>
         (''exclude_airlines'' \<in> set (encoded (coverage l))) \<noteq>
         (not_supported ''exclude_airlines'' \<in> set (unmatched (coverage l)))) \<and>
      (fst (parse_time_window (sa_outbound_times a)) \<noteq> None \<longrightarrow>
         (''dep_time_window'' \<in> set (encoded (coverage l))) \<noteq>
         (not_supported ''dep_time_window'' \<in> set (unmatched (coverage l)))) \<and>
      (snd (parse_time_window (sa_outbound_times a)) \<noteq> None \<longrightarrow>
         (''arr_time_window'' \<in> set (encoded (coverage l))) \<noteq>
         (not_supported ''arr_time_window'' \<in> set (unmatched (coverage l)))) \<and>
      (return_windows a \<longrightarrow>
         (''dep_time_windows/arr_time_windows'' \<in> set (encoded (coverage l))) \<noteq>
         (return_times_approximated \<in> set (approximated (coverage l)))))"
proof (rule conjI)
  show "build_gf_urls so enc jl rq = Inr r \<and> l' \<in> set (links r) \<longrightarrow>
      pairwise_disjoint (coverage l')"
  proof (rule impI)
    assume "build_gf_urls so enc jl rq = Inr r \<and> l' \<in> set (links r)"
    with links_from_single_or_multi [of so enc jl rq r l']
    have "coverage l' = \<lparr>encoded = [''tfs'', ''hl'', ''gl'', ''currency''],
                          approximated = [], unmatched = []\<rparr> \<or>
           (\<exists>a. build_single_url enc a = Inr l')"
      by simp
    then show "pairwise_disjoint (coverage l')"
    proof
      assume "coverage l' = \<lparr>encoded = [''tfs'', ''hl'', ''gl'', ''currency''],
                          approximated = [], unmatched = []\<rparr>"
      then show ?thesis by (simp add: pairwise_disjoint_def)
    next
      assume "\<exists>a. build_single_url enc a = Inr l'"
      then obtain a' where "build_single_url enc a' = Inr l'" ..
      from single_link_classified [OF this] show ?thesis by (rule conjunct1)
    qed
  qed
next
  show "build_single_url enc a = Inr l \<longrightarrow>
      pairwise_disjoint (coverage l) \<and>
      set [''tfs'', ''hl'', ''gl'', ''currency''] \<subseteq> set (encoded (coverage l)) \<and>
      (truthy (sa_travel_class a) \<longrightarrow>
         (''travel_class'' \<in> set (encoded (coverage l))) \<noteq>
         (''travel_class ('' @ the (sa_travel_class a) @ '')'' \<in> set (unmatched (coverage l)))) \<and>
      (sa_stops a \<noteq> None \<longrightarrow>
         (''stops'' \<in> set (encoded (coverage l))) \<noteq>
         (''stops ('' @ the (sa_stops a) @ '')'' \<in> set (unmatched (coverage l)))) \<and>
      (sa_include_airlines a \<noteq> [] \<longrightarrow>
         (''include_airlines'' \<in> set (encoded (coverage l))) \<noteq>
         (not_supported ''include_airlines'' \<in> set (unmatched (coverage l)))) \<and>
      (sa_exclude_airlines a \<noteq> [] \<longrightarrow>
         (''exclude_airlines'' \<in> set (encoded (coverage l))) \<noteq>
         (not_supported ''exclude_airlines'' \<in> set (unmatched (coverage l)))) \<and>
      (fst (parse_time_window (sa_outbound_times a)) \<noteq> None \<longrightarrow>
         (''dep_time_window'' \<in> set (encoded (coverage l))) \<noteq>
         (not_supported ''dep_time_window'' \<in> set (unmatched (coverage l)))) \<and>
      (snd (parse_time_window (sa_outbound_times a)) \<noteq> None \<longrightarrow>
         (''arr_time_window'' \<in> set (encoded (coverage l))) \<noteq>
         (not_supported ''arr_time_window'' \<in> set (unmatched (coverage l)))) \<and>
      (return_windows a \<longrightarrow>
         (''dep_time_windows/arr_time_windows'' \<in> set (encoded (coverage l))) \<noteq>
         (return_times_approximated \<in> set (approximated (coverage l))))"
    by (rule impI) (rule single_link_classified)
qed

theorem coverage_disjoint_and_classified_witness:
  "(\<exists>l. build_single_url accepting_encoder (pair_args unknown_codes_request ''SYD'' ''MEL'') = Inr l \<and>
        pairwise_disjoint (coverage l) \<and>
        ''travel_class'' \<notin> set (encoded (coverage l)) \<and>
        ''travel_class (9)'' \<in> set (unmatched (coverage l)) \<and>
        ''include_airlines'' \<in> set (encoded (coverage l)) \<and>
        not_supported ''include_airlines'' \<notin> set (unmatched (coverage l))) \<and>
   (\<exists>r. build_gf_urls remdups accepting_encoder three_legs_loads unknown_codes_request = Inr r \<and>
        links r \<noteq> [] \<and> pairwise_disjoint (coverage (hd (links r))))"
proof -
  let ?a = "pair_args unknown_codes_request ''SYD'' ''MEL''"
  have "case build_single_url accepting_encoder ?a of
          Inl e \<Rightarrow> False
        | Inr l \<Rightarrow> ''travel_class (9)'' \<in> set (unmatched (coverage l)) \<and>
                   ''include_airlines'' \<in> set (encoded (coverage l))"
    by code_simp
  then obtain l where l: "build_single_url accepting_encoder ?a = Inr l"
    and m: "''travel_class (9)'' \<in> set (unmatched (coverage l))"
      "''include_airlines'' \<in> set (encoded (coverage l))"
    by (cases "build_single_url accepting_encoder ?a") simp_all
  have tc: "truthy (sa_travel_class ?a)" "the (sa_travel_class ?a) = ''9''"
    and inc: "sa_include_airlines ?a \<noteq> []"
    by code_simp+
  have "case build_gf_urls remdups accepting_encoder three_legs_loads unknown_codes_request of
          Inl e \<Rightarrow> False | Inr r \<Rightarrow> links r \<noteq> []"
    by code_simp
  then obtain r where
    r: "build_gf_urls remdups accepting_encoder three_legs_loads unknown_codes_request = Inr r"
    and ne: "links r \<noteq> []"
    by (cases "build_gf_urls remdups accepting_encoder three_legs_loads unknown_codes_request")
       simp_all
  from ne have hd: "hd (links r) \<in> set (links r)" by simp
  from coverage_disjoint_and_classified
    [of remdups accepting_encoder three_legs_loads unknown_codes_request r "hd (links r)" ?a l]
    l r hd tc inc m
  have "pairwise_disjoint (coverage (hd (links r)))" and "pairwise_disjoint (coverage l)"
    and "''travel_class'' \<notin> set (encoded (coverage l))"
    and "not_supported ''include_airlines'' \<notin> set (unmatched (coverage l))"
    by simp_all
  with l m r ne show ?thesis by blast
qed

text \<open>
  The claim as stated fails: the caller supplies \<open>outbound_times\<close> (and the passenger
  counts, the places and the date), and no list of the link names it.
\<close>

theorem supplied_parameter_in_no_list:
  "rq_outbound_times malformed_window_request = Some ''1,2,3'' \<and>
   build_gf_urls remdups accepting_encoder three_legs_loads malformed_window_request =
     Inr \<lparr>links =
            [\<lparr>url = ''https://www.google.com/travel/flights?tfs=SYDMEL&hl=en&gl=US&curr=USD'',
              coverage = \<lparr>encoded = [''tfs'', ''hl'', ''gl'', ''currency''],
                          approximated = [], unmatched = []\<rparr>\<rparr>],
          unmatched_global = [],
          serpapi_fallback =
            [(''departure_id'', VStr ''SYD''), (''arrival_id'', VStr ''MEL''),
             (''outbound_date'', VStr ''2025-08-15''), (''adults'', VInt 1),
             (''children'', VInt 0), (''infants_in_seat'', VInt 0),
             (''infants_on_lap'', VInt 0), (''outbound_times'', VStr ''1,2,3''),
             (''hl'', VStr ''en''), (''gl'', VStr ''US''), (''currency'', VStr ''USD''),
             (''engine'', VStr ''google_flights'')]\<rparr>"
  by code_simp

section \<open>Unrecognised enumerated codes\<close>

lemma try_kw_fst_cong:
  "fst st = fst st' \<Longrightarrow> fst (try_kw enc key put st) = fst (try_kw enc key put st')"
  by (simp add: try_kw_def split: option.splits)

lemma airline_steps_fst_cong:
  "fst st = fst st' \<Longrightarrow> fst (airline_steps enc i e st) = fst (airline_steps enc i e st')"
  unfolding airline_steps_def Let_def
  by (auto intro!: try_kw_fst_cong)

lemma window_steps_fst_cong:
  "fst st = fst st' \<Longrightarrow> fst (window_steps enc d0 a0 st) = fst (window_steps enc d0 a0 st')"
  unfolding window_steps_def Let_def
  by (auto intro!: try_kw_fst_cong)

lemma return_window_step_fst_cong:
  "fst st = fst st' \<Longrightarrow>
   fst (return_window_step enc rt d0 a0 d1 a1 st) = fst (return_window_step enc rt d0 a0 d1 a1 st')"
  by (cases "rt \<and> (d1 \<noteq> None \<or> a1 \<noteq> None)")
     (auto simp add: return_window_step_def Let_def split: option.splits)

lemma stops_step_fst: "fst (stops_step s cov) = fst (stops_step s cov')"
  by (simp add: stops_step_def split: option.splits)

lemma single_tfs_fst_cong:
  assumes "trip_legs a = trip_legs a'"
    and "sa_adults a = sa_adults a'" "sa_children a = sa_children a'"
    and "sa_infants_in_seat a = sa_infants_in_seat a'"
    and "sa_infants_on_lap a = sa_infants_on_lap a'"
    and "fst (cabin_step (sa_travel_class a) empty_coverage) =
         fst (cabin_step (sa_travel_class a') empty_coverage)"
    and "fst (stops_step (sa_stops a) empty_coverage) =
         fst (stops_step (sa_stops a') empty_coverage)"
    and "sa_include_airlines a = sa_include_airlines a'"
    and "sa_exclude_airlines a = sa_exclude_airlines a'"
    and "sa_outbound_times a = sa_outbound_times a'"
    and "sa_return_times a = sa_return_times a'"
  shows "fst (single_tfs enc a) = fst (single_tfs enc a')"
proof -
  have st: "fst (stops_step (sa_stops a) c) = fst (stops_step (sa_stops a') c')" for c c'
    using assms(7) stops_step_fst by metis
  have cp: "clamped_passengers a = clamped_passengers a'"
    by (simp add: clamped_passengers_def assms(2-5))
  show ?thesis
    unfolding single_tfs_def Let_def assms(1) cp assms(8-11)
    by (intro return_window_step_fst_cong window_steps_fst_cong airline_steps_fst_cong)
       (simp add: assms(6) st [of "snd (cabin_step (sa_travel_class a) empty_coverage)"
          "snd (cabin_step (sa_travel_class a') empty_coverage)"])
qed


lemma TRAVEL_CLASS_dom: "TRAVEL_CLASS x = None \<longleftrightarrow> x \<notin> {''1'', ''2'', ''3'', ''4''}"
  by (simp add: TRAVEL_CLASS_def)

lemma STOPS_MAP_dom: "STOPS_MAP x = None \<longleftrightarrow> x \<notin> {''0'', ''1'', ''2'', ''3''}"
  by (simp add: STOPS_MAP_def)

lemma build_single_url_Inl_cong:
  assumes "fst (single_tfs enc a) = fst (single_tfs enc a')"
    and "sa_dep a = sa_dep a'" "sa_arr a = sa_arr a'"
    and "sa_outbound_date a = sa_outbound_date a'" "sa_return_date a = sa_return_date a'"
    and "clamped_passengers a = clamped_passengers a'"
  shows "(build_single_url enc a = Inl e) = (build_single_url enc a' = Inl e)"
  unfolding build_single_url_def assms
  by (simp split: option.splits)

lemma unknown_cabin_tolerated:
  assumes t: "truthy (sa_travel_class a)"
    and u: "the (sa_travel_class a) \<notin> {''1'', ''2'', ''3'', ''4''}"
  shows "(build_single_url enc a = Inl e) =
         (build_single_url enc (a\<lparr>sa_travel_class := None\<rparr>) = Inl e)"
    and "build_single_url enc a = Inr l \<Longrightarrow>
         ''travel_class ('' @ the (sa_travel_class a) @ '')'' \<in> set (unmatched (coverage l))"
proof -
  from u have n: "TRAVEL_CLASS (the (sa_travel_class a)) = None"
    by (simp add: TRAVEL_CLASS_dom)
  have "fst (single_tfs enc a) = fst (single_tfs enc (a\<lparr>sa_travel_class := None\<rparr>))"
    by (rule single_tfs_fst_cong)
       (simp_all add: trip_legs_def Let_def cabin_step_def n t truthy_def)
  then show "(build_single_url enc a = Inl e) =
         (build_single_url enc (a\<lparr>sa_travel_class := None\<rparr>) = Inl e)"
    by (rule build_single_url_Inl_cong) (simp_all add: clamped_passengers_def)
next
  assume "build_single_url enc a = Inr l"
  from build_single_url_coverage [OF this] obtain inc exc dep arr ret where
    "unmatched (coverage l) = unmatched (coverage_table a inc exc dep arr ret)" by blast
  moreover from u have "\<not> known_cabin a"
    by (simp add: known_cabin_def TRAVEL_CLASS_dom)
  ultimately show "''travel_class ('' @ the (sa_travel_class a) @ '')'' \<in>
      set (unmatched (coverage l))"
    using t by (simp add: coverage_table_def optional_entry_mem)
qed

lemma unknown_stops_tolerated:
  assumes t: "sa_stops a \<noteq> None"
    and u: "the (sa_stops a) \<notin> {''0'', ''1'', ''2'', ''3''}"
  shows "(build_single_url enc a = Inl e) =
         (build_single_url enc (a\<lparr>sa_stops := None\<rparr>) = Inl e)"
    and "build_single_url enc a = Inr l \<Longrightarrow>
         ''stops ('' @ the (sa_stops a) @ '')'' \<in> set (unmatched (coverage l))"
proof -
  from u have n: "STOPS_MAP (the (sa_stops a)) = None"
    by (simp add: STOPS_MAP_dom)
  from t obtain s where s: "sa_stops a = Some s" by blast
  have "fst (single_tfs enc a) = fst (single_tfs enc (a\<lparr>sa_stops := None\<rparr>))"
    using n s by (intro single_tfs_fst_cong) (simp_all add: trip_legs_def Let_def stops_step_def)
  then show "(build_single_url enc a = Inl e) =
         (build_single_url enc (a\<lparr>sa_stops := None\<rparr>) = Inl e)"
    by (rule build_single_url_Inl_cong) (simp_all add: clamped_passengers_def)
next
  assume "build_single_url enc a = Inr l"
  from build_single_url_coverage [OF this] obtain inc exc dep arr ret where
    "unmatched (coverage l) = unmatched (coverage_table a inc exc dep arr ret)" by blast
  moreover from u have "\<not> known_stops a"
    by (simp add: known_stops_def STOPS_MAP_dom)
  ultimately show "''stops ('' @ the (sa_stops a) @ '')'' \<in> set (unmatched (coverage l))"
    using t by (simp add: coverage_table_def optional_entry_mem)
qed

lemma unknown_trip_type_one_way:
  assumes "sa_type a \<notin> {None, Some ''1'', Some ''2'', Some ''3''}"
  shows "build_single_url enc a = build_single_url enc (a\<lparr>sa_type := Some ''2''\<rparr>)"
proof -
  from assms have eq: "trip_legs (a\<lparr>sa_type := Some ''2''\<rparr>) = trip_legs a"
    by (simp add: trip_legs_def Let_def)
  have cp: "clamped_passengers (a\<lparr>sa_type := Some ''2''\<rparr>) = clamped_passengers a"
    by (simp add: clamped_passengers_def)
  have st: "single_tfs enc (a\<lparr>sa_type := Some ''2''\<rparr>) = single_tfs enc a"
    unfolding single_tfs_def Let_def eq cp by simp
  show ?thesis
    unfolding build_single_url_def st cp by (simp split: option.splits)
qed

text \<open>
  C5, as the program has it: in \<open>_build_single_url\<close> a cabin class that is not empty
  and is none of 1 to 4, and a stop cap that is none of 0 to 3, never make the link fail
  (it is refused with an error exactly when it is refused without the code) and are
  recorded in the unmatched list of the link.  A trip type that is none of 1 to 3 does not
  make the link fail either, and is recorded nowhere: the link is the one of the one-way
  code \<open>"2"\<close>.
\<close>

theorem unknown_codes_tolerated:
  "(truthy (sa_travel_class a) \<and> the (sa_travel_class a) \<notin> {''1'', ''2'', ''3'', ''4''} \<longrightarrow>
      (build_single_url enc a = Inl e) =
        (build_single_url enc (a\<lparr>sa_travel_class := None\<rparr>) = Inl e) \<and>
      (build_single_url enc a = Inr l \<longrightarrow>
         ''travel_class ('' @ the (sa_travel_class a) @ '')'' \<in> set (unmatched (coverage l)))) \<and>
   (sa_stops a \<noteq> None \<and> the (sa_stops a) \<notin> {''0'', ''1'', ''2'', ''3''} \<longrightarrow>
      (build_single_url enc a = Inl e) =
        (build_single_url enc (a\<lparr>sa_stops := None\<rparr>) = Inl e) \<and>
      (build_single_url enc a = Inr l \<longrightarrow>
         ''stops ('' @ the (sa_stops a) @ '')'' \<in> set (unmatched (coverage l)))) \<and>
   (sa_type a \<notin> {None, Some ''1'', Some ''2'', Some ''3''} \<longrightarrow>
      build_single_url enc a = build_single_url enc (a\<lparr>sa_type := Some ''2''\<rparr>))"
proof (intro conjI impI)
  assume h: "truthy (sa_travel_class a) \<and> the (sa_travel_class a) \<notin> {''1'', ''2'', ''3'', ''4''}"
  then show "(build_single_url enc a = Inl e) =
        (build_single_url enc (a\<lparr>sa_travel_class := None\<rparr>) = Inl e)"
    by (intro unknown_cabin_tolerated(1)) simp_all
  assume "build_single_url enc a = Inr l"
  with h show "''travel_class ('' @ the (sa_travel_class a) @ '')'' \<in> set (unmatched (coverage l))"
    by (intro unknown_cabin_tolerated(2)) simp_all
next
  assume h: "sa_stops a \<noteq> None \<and> the (sa_stops a) \<notin> {''0'', ''1'', ''2'', ''3''}"
  then show "(build_single_url enc a = Inl e) =
        (build_single_url enc (a\<lparr>sa_stops := None\<rparr>) = Inl e)"
    by (intro unknown_stops_tolerated(1)) simp_all
  assume "build_single_url enc a = Inr l"
  with h show "''stops ('' @ the (sa_stops a) @ '')'' \<in> set (unmatched (coverage l))"
    by (intro unknown_stops_tolerated(2)) simp_all
next
  assume "sa_type a \<notin> {None, Some ''1'', Some ''2'', Some ''3''}"
  then show "build_single_url enc a = build_single_url enc (a\<lparr>sa_type := Some ''2''\<rparr>)"
    by (rule unknown_trip_type_one_way)
qed

theorem unknown_codes_tolerated_witness:
  "(\<exists>l. build_single_url accepting_encoder (pair_args unknown_codes_request ''SYD'' ''MEL'') = Inr l \<and>
        ''travel_class (9)'' \<in> set (unmatched (coverage l)) \<and>
        ''stops (5)'' \<in> set (unmatched (coverage l))) \<and>
   sa_type (pair_args unknown_trip_type_request ''SYD'' ''MEL'') = Some ''7'' \<and>
   build_single_url accepting_encoder (pair_args unknown_trip_type_request ''SYD'' ''MEL'') =
     build_single_url accepting_encoder
       ((pair_args unknown_trip_type_request ''SYD'' ''MEL'')\<lparr>sa_type := Some ''2''\<rparr>)"
proof -
  let ?a = "pair_args unknown_codes_request ''SYD'' ''MEL''"
  let ?b = "pair_args unknown_trip_type_request ''SYD'' ''MEL''"
  have "case build_single_url accepting_encoder ?a of Inl e \<Rightarrow> False | Inr l \<Rightarrow> True"
    by code_simp
  then obtain l where l: "build_single_url accepting_encoder ?a = Inr l"
    by (cases "build_single_url accepting_encoder ?a") simp_all
  have tc: "truthy (sa_travel_class ?a) \<and> the (sa_travel_class ?a) \<notin> {''1'', ''2'', ''3'', ''4''}"
    and tcv: "the (sa_travel_class ?a) = ''9''"
    and st: "sa_stops ?a \<noteq> None \<and> the (sa_stops ?a) \<notin> {''0'', ''1'', ''2'', ''3''}"
    and stv: "the (sa_stops ?a) = ''5''"
    by code_simp+
  have ty: "sa_type ?b \<notin> {None, Some ''1'', Some ''2'', Some ''3''}"
    and tyv: "sa_type ?b = Some ''7''"
    by code_simp+
  from unknown_codes_tolerated [of ?a accepting_encoder undefined l] l tc st
  have "''travel_class ('' @ the (sa_travel_class ?a) @ '')'' \<in> set (unmatched (coverage l))"
    and "''stops ('' @ the (sa_stops ?a) @ '')'' \<in> set (unmatched (coverage l))"
    by blast+
  then have m: "''travel_class (9)'' \<in> set (unmatched (coverage l))"
    "''stops (5)'' \<in> set (unmatched (coverage l))"
    by (simp_all add: tcv stv)
  from unknown_codes_tolerated [of ?b accepting_encoder undefined undefined] ty
  have "build_single_url accepting_encoder ?b =
      build_single_url accepting_encoder (?b\<lparr>sa_type := Some ''2''\<rparr>)"
    by blast
  with l m tyv show ?thesis by blast
qed

text \<open>
  The claim as stated fails: the trip type \<open>"7"\<close> is in no lookup table, the request is
  compiled, and neither the coverage of its link nor the global unmatched list records
  the code.
\<close>

theorem unknown_trip_type_not_recorded:
  "rq_type unknown_trip_type_request = Some ''7'' \<and>
   build_gf_urls remdups accepting_encoder three_legs_loads unknown_trip_type_request =
     Inr \<lparr>links =
            [\<lparr>url = ''https://www.google.com/travel/flights?tfs=SYDMEL&hl=en&gl=US&curr=USD'',
              coverage = \<lparr>encoded = [''tfs'', ''hl'', ''gl'', ''currency''],
                          approximated = [], unmatched = []\<rparr>\<rparr>],
          unmatched_global = [],
          serpapi_fallback =
            [(''departure_id'', VStr ''SYD''), (''arrival_id'', VStr ''MEL''),
             (''outbound_date'', VStr ''2025-08-15''), (''type'', VStr ''7''),
             (''adults'', VInt 1), (''children'', VInt 0), (''infants_in_seat'', VInt 0),
             (''infants_on_lap'', VInt 0), (''hl'', VStr ''en''), (''gl'', VStr ''US''),
             (''currency'', VStr ''USD''), (''engine'', VStr ''google_flights'')]\<rparr>"
  by code_simp

end
